theory Spec2Isabelle
  imports Main
begin

section \<open>The publisher service: data\<close>

text \<open>
  The publisher service schedules the delivery of an approved guidance draft, checks the
  safety guardrails when the queued job runs, sends the e-mails, and offers a rollback
  route. The model follows \<^verbatim>\<open>services/publisher/src\<close> (config, queue, routes) and the
  guardrails and e-mail service of the same service.

  Instants are milliseconds since the epoch, as \<^verbatim>\<open>Date.getTime()\<close> gives them. Every
  operation reads the clock once: its \<open>now\<close> argument stands for \<^verbatim>\<open>new Date()\<close>
  and for the SQL \<^verbatim>\<open>NOW()\<close> of that operation.
\<close>

type_synonym instant = int

text \<open>\<^verbatim>\<open>config.safety\<close>. \<^verbatim>\<open>parseInt\<close> of a non-numeric setting (NaN) is outside the type.\<close>

record safety_config =
  approvalRequired :: bool
  gracePeriodMinutes :: int
  testGroupEmails :: "string list"
  enableRollback :: bool

text \<open>JSONB values as far as the service writes and reads them.\<close>

datatype json = JBool bool | JString string

text \<open>The text of a JSON value, as the SQL operator \<^verbatim>\<open>->>\<close> extracts it.\<close>

fun json_text :: "json \<Rightarrow> string" where
  "json_text (JBool b) = (if b then ''true'' else ''false'')"
| "json_text (JString s) = s"

definition get_text :: "(string \<times> json) list \<Rightarrow> string \<Rightarrow> string option" where
  "get_text md k = map_option json_text (map_of md k)"

text \<open>
  A row of \<^verbatim>\<open>guidance_publications\<close>, as the JavaScript code sees it: the columns of
  \<^verbatim>\<open>schema.sql\<close> that the service reads or writes, and the two properties
  \<^verbatim>\<open>test_mode\<close> and \<^verbatim>\<open>unsubscribe_url\<close> that the guardrails read from the row
  object. \<^verbatim>\<open>schema.sql\<close> declares no column of either name and the schedule route
  inserts neither, so they are \<open>None\<close> (undefined) in every row that route creates.
  The joined draft columns (title, summary, content) only feed the message body and are
  left out; the foreign key makes the inner join keep every publication row.
\<close>

record publication =
  id_pub :: nat
  guidance_draft_id :: nat
  segment_id :: "nat option"
  publication_channel :: string
  scheduled_for :: "instant option"
  published_at :: "instant option"
  recipients_count :: nat
  successful_deliveries :: nat
  failed_deliveries :: nat
  grace_period_ends_at :: "instant option"
  can_rollback :: bool
  rolled_back_at :: "instant option"
  rollback_reason :: "string option"
  metadata :: "(string \<times> json) list"
  created_at :: instant
  test_mode :: "bool option"
  unsubscribe_url :: "string option"

record approval_request =
  related_entity_id :: nat
  request_type :: string
  status :: string

record delivery_event =
  publication_id :: nat
  occurred_at :: instant
  event_type :: string
  recipient_hash :: string
  metadata_ev :: "(string \<times> json) list"

text \<open>The table \<^verbatim>\<open>members\<close> that \<^verbatim>\<open>getRecipients\<close> selects from.\<close>

record member =
  id_m :: nat
  email_m :: string
  segment_id_m :: nat
  email_verified :: bool
  subscribed :: bool

datatype recipient_id = TestId nat | MemberId nat

record recipient =
  id_r :: recipient_id
  email :: string

text \<open>The payload of a queued job and the delay it was added with.\<close>

record job =
  publicationId :: nat
  testMode :: bool
  delay :: int

text \<open>
  The statements the service sends to the store and the queue. A statement listed in
  \<open>failing\<close> is one whose promise rejects (\<^verbatim>\<open>db.query\<close> or \<^verbatim>\<open>publishQueue.add\<close>
  throws).
\<close>

datatype query =
  PublicationLookup | ApprovalLookup | TestGroupLookup | SentCount | MemberLookup
  | PublicationInsert | PublicationUpdate | EventInsert | EventCount | QueueAdd

record sys =
  guidance_publications :: "publication list"
  approval_requests :: "approval_request list"
  delivery_events :: "delivery_event list"
  members :: "member list"
  publishQueue :: "job list"
  failing :: "query list"

text \<open>\<^verbatim>\<open>SELECT * FROM guidance_publications WHERE id = $1\<close>, first row.\<close>

definition selectPublication :: "nat \<Rightarrow> sys \<Rightarrow> publication option" where
  "selectPublication i s = List.find (\<lambda>p. id_pub p = i) (guidance_publications s)"

text \<open>\<^verbatim>\<open>UPDATE guidance_publications SET ... WHERE id = $n\<close>.\<close>

definition updatePublication :: "nat \<Rightarrow> (publication \<Rightarrow> publication) \<Rightarrow> sys \<Rightarrow> sys" where
  "updatePublication i f s =
     s\<lparr>guidance_publications :=
         map (\<lambda>p. if id_pub p = i then f p else p) (guidance_publications s)\<rparr>"

section \<open>Safety guardrails\<close>

record check =
  layer :: nat
  name :: string
  message :: "string option"

record check_lists =
  passed :: "check list"
  failed :: "check list"

record safety_check =
  safe :: bool
  checks :: check_lists

definition pass :: "nat \<Rightarrow> string \<Rightarrow> check" where
  "pass l n = \<lparr>layer = l, name = n, message = None\<rparr>"

definition fail :: "nat \<Rightarrow> string \<Rightarrow> string \<Rightarrow> check" where
  "fail l n m = \<lparr>layer = l, name = n, message = Some m\<rparr>"

text \<open>
  \<^verbatim>\<open>checkApproval\<close>: an approved request for the draft exists; a rejected query is
  caught and gives \<^verbatim>\<open>false\<close>.
\<close>

definition approvedRequests :: "sys \<Rightarrow> publication \<Rightarrow> approval_request list" where
  "approvedRequests s p =
     filter (\<lambda>a. related_entity_id a = guidance_draft_id p
                \<and> request_type a = ''guidance_publication''
                \<and> status a = ''approved'') (approval_requests s)"

definition checkApproval :: "sys \<Rightarrow> publication \<Rightarrow> bool" where
  "checkApproval s p =
     (if ApprovalLookup \<in> set (failing s) then False
      else approvedRequests s p \<noteq> [])"

text \<open>\<^verbatim>\<open>checkGracePeriod\<close>: measured against the clock at the time of the check.\<close>

definition checkGracePeriod :: "safety_config \<Rightarrow> instant \<Rightarrow> publication \<Rightarrow> bool" where
  "checkGracePeriod cfg now p =
     (case scheduled_for p of
        None \<Rightarrow> False
      | Some scheduled \<Rightarrow> gracePeriodMinutes cfg * 60 * 1000 \<le> scheduled - now)"

text \<open>
  \<^verbatim>\<open>checkTestGroup\<close>: the row's own \<^verbatim>\<open>test_mode\<close> property, or a published e-mail
  publication of the same draft whose metadata has \<^verbatim>\<open>is_test\<close> equal to \<^verbatim>\<open>'true'\<close>.
\<close>

definition testGroupRows :: "sys \<Rightarrow> publication \<Rightarrow> publication list" where
  "testGroupRows s p =
     filter (\<lambda>q. guidance_draft_id q = guidance_draft_id p
                \<and> publication_channel q = ''email''
                \<and> get_text (metadata q) ''is_test'' = Some ''true''
                \<and> published_at q \<noteq> None) (guidance_publications s)"

definition checkTestGroup :: "sys \<Rightarrow> publication \<Rightarrow> bool" where
  "checkTestGroup s p =
     (if test_mode p = Some True then True
      else if TestGroupLookup \<in> set (failing s) then False
      else testGroupRows s p \<noteq> [])"

text \<open>\<^verbatim>\<open>new Date(null)\<close> is the epoch, so a row without a window compares against 0.\<close>

definition dateOf :: "instant option \<Rightarrow> instant" where
  "dateOf t = (case t of None \<Rightarrow> 0 | Some d \<Rightarrow> d)"

definition checkRollbackCapability :: "instant \<Rightarrow> publication \<Rightarrow> bool" where
  "checkRollbackCapability now p = (now < dateOf (grace_period_ends_at p))"

definition truthy :: "string option \<Rightarrow> bool" where
  "truthy v = (case v of None \<Rightarrow> False | Some t \<Rightarrow> t \<noteq> [])"

definition checkDataProtection :: "publication \<Rightarrow> check_lists" where
  "checkDataProtection p =
     (let c5 = \<lparr>passed = [pass 5 ''member_data_encryption'', pass 6 ''access_control'',
                           pass 7 ''audit_logging''], failed = []\<rparr>;
          c8 = (if \<not> truthy (unsubscribe_url p)
                then c5\<lparr>failed := failed c5 @ [fail 8 ''gdpr_compliance'' ''Unsubscribe URL required'']\<rparr>
                else c5\<lparr>passed := passed c5 @ [pass 8 ''gdpr_compliance'']\<rparr>)
      in c8\<lparr>passed := passed c8 @ [pass 9 ''data_retention'', pass 10 ''privacy_by_design'']\<rparr>)"

text \<open>
  \<^verbatim>\<open>checkRateLimit\<close>: the count of \<^verbatim>\<open>sent\<close> events of the last hour, over all
  publications; a rejected query is caught and gives \<^verbatim>\<open>true\<close>.
\<close>

definition sentLastHour :: "sys \<Rightarrow> instant \<Rightarrow> nat" where
  "sentLastHour s now =
     length (filter (\<lambda>e. event_type e = ''sent'' \<and> now - 3600000 < occurred_at e)
               (delivery_events s))"

definition checkRateLimit :: "sys \<Rightarrow> instant \<Rightarrow> bool" where
  "checkRateLimit s now =
     (if SentCount \<in> set (failing s) then True
      else sentLastHour s now < 1000)"

definition checkOperationalSafety :: "sys \<Rightarrow> instant \<Rightarrow> check_lists" where
  "checkOperationalSafety s now =
     (let c0 = \<lparr>passed = [], failed = []\<rparr>;
          c11 = (if checkRateLimit s now
                 then c0\<lparr>passed := passed c0 @ [pass 11 ''rate_limiting'']\<rparr>
                 else c0\<lparr>failed := failed c0 @ [fail 11 ''rate_limiting'' ''Rate limit exceeded'']\<rparr>)
      in c11\<lparr>passed := passed c11 @ [pass 12 ''graceful_degradation'', pass 13 ''backup_systems'',
                                       pass 14 ''disaster_recovery'', pass 15 ''health_monitoring'']\<rparr>)"

definition checkMonitoring :: check_lists where
  "checkMonitoring =
     \<lparr>passed = [pass 16 ''change_notifications'', pass 17 ''service_health'',
                pass 18 ''anomaly_detection'', pass 19 ''delivery_tracking''],
      failed = []\<rparr>"

text \<open>Layers 1 to 4 of \<^verbatim>\<open>checkBeforePublish\<close>, each pushing onto one of the two lists.\<close>

definition layer1 :: "safety_config \<Rightarrow> sys \<Rightarrow> publication \<Rightarrow> check_lists \<Rightarrow> check_lists" where
  "layer1 cfg s p c =
     (if approvalRequired cfg
      then (if \<not> checkApproval s p
            then c\<lparr>failed := failed c @ [fail 1 ''approval_required'' ''Publication requires human approval'']\<rparr>
            else c\<lparr>passed := passed c @ [pass 1 ''approval_required'']\<rparr>)
      else c)"

definition layer2 :: "safety_config \<Rightarrow> instant \<Rightarrow> publication \<Rightarrow> check_lists \<Rightarrow> check_lists" where
  "layer2 cfg now p c =
     (if \<not> checkGracePeriod cfg now p
      then c\<lparr>failed := failed c @ [fail 2 ''grace_period'' ''Publication must respect grace period'']\<rparr>
      else c\<lparr>passed := passed c @ [pass 2 ''grace_period'']\<rparr>)"

definition layer3 :: "sys \<Rightarrow> publication \<Rightarrow> check_lists \<Rightarrow> check_lists" where
  "layer3 s p c =
     (if \<not> checkTestGroup s p
      then c\<lparr>failed := failed c @ [fail 3 ''test_group'' ''Test group delivery required first'']\<rparr>
      else c\<lparr>passed := passed c @ [pass 3 ''test_group'']\<rparr>)"

definition layer4 :: "safety_config \<Rightarrow> instant \<Rightarrow> publication \<Rightarrow> check_lists \<Rightarrow> check_lists" where
  "layer4 cfg now p c =
     (if \<not> checkRollbackCapability now p \<and> enableRollback cfg
      then c\<lparr>failed := failed c @ [fail 4 ''rollback_capability'' ''Rollback must be available'']\<rparr>
      else c\<lparr>passed := passed c @ [pass 4 ''rollback_capability'']\<rparr>)"

definition push :: "check_lists \<Rightarrow> check_lists \<Rightarrow> check_lists" where
  "push c d = \<lparr>passed = passed c @ passed d, failed = failed c @ failed d\<rparr>"

definition checkBeforePublish :: "safety_config \<Rightarrow> sys \<Rightarrow> instant \<Rightarrow> publication \<Rightarrow> safety_check" where
  "checkBeforePublish cfg s now p =
     (let c4 = layer4 cfg now p (layer3 s p (layer2 cfg now p
                 (layer1 cfg s p \<lparr>passed = [], failed = []\<rparr>)));
          c10 = push c4 (checkDataProtection p);
          c15 = push c10 (checkOperationalSafety s now);
          c19 = push c15 checkMonitoring
      in \<lparr>safe = (failed c19 = []), checks = c19\<rparr>)"

section \<open>E-mail service\<close>

record send_results =
  sent :: nat
  failed_sends :: nat
  errors :: "(string \<times> string) list"

text \<open>
  The loop of \<^verbatim>\<open>sendGuidance\<close>. \<open>transport k\<close> is the outcome of the \<open>try\<close> block
  of the \<open>k\<close>-th recipient (rendering and \<^verbatim>\<open>sendMail\<close>): \<open>None\<close> when it returns,
  \<open>Some msg\<close> when it throws an error with that message. A throw is caught, counted
  and recorded, and the loop goes on.
\<close>

fun sendLoop :: "(nat \<Rightarrow> string option) \<Rightarrow> nat \<Rightarrow> recipient list \<Rightarrow> send_results \<Rightarrow> send_results" where
  "sendLoop transport k [] results = results"
| "sendLoop transport k (r # rs) results =
     (case transport k of
        None \<Rightarrow> sendLoop transport (Suc k) rs (results\<lparr>sent := sent results + 1\<rparr>)
      | Some msg \<Rightarrow>
          sendLoop transport (Suc k) rs
            (results\<lparr>failed_sends := failed_sends results + 1,
                     errors := errors results @ [(email r, msg)]\<rparr>))"

definition sendGuidance :: "(nat \<Rightarrow> string option) \<Rightarrow> recipient list \<Rightarrow> send_results" where
  "sendGuidance transport recipients =
     sendLoop transport 0 recipients \<lparr>sent = 0, failed_sends = 0, errors = []\<rparr>"

section \<open>The queued delivery job\<close>

datatype job_error =
  PublicationNotFound nat
  | SafetyChecksFailed "check list"
  | QueryRejected query
  | AwaitSyntaxError

datatype job_return =
  Completed (r_publicationId: nat) (r_sent: nat) (r_failed: nat) (r_total: nat)

definition getRecipients :: "sys \<Rightarrow> publication \<Rightarrow> job_error + recipient list" where
  "getRecipients s p =
     (case segment_id p of
        None \<Rightarrow> Inr []
      | Some seg \<Rightarrow>
          if MemberLookup \<in> set (failing s) then Inl (QueryRejected MemberLookup)
          else Inr (map (\<lambda>m. \<lparr>id_r = MemberId (id_m m), email = email_m m\<rparr>)
                      (filter (\<lambda>m. segment_id_m m = seg \<and> email_verified m \<and> subscribed m)
                         (members s))))"

definition testRecipients :: "safety_config \<Rightarrow> recipient list" where
  "testRecipients cfg =
     map (\<lambda>(i, e). \<lparr>id_r = TestId i, email = e\<rparr>) (enumerate 0 (testGroupEmails cfg))"

text \<open>
  \<^verbatim>\<open>hashEmail\<close> is declared as a plain \<^verbatim>\<open>function\<close>, and its first statement is
  \<^verbatim>\<open>const crypto = await import('crypto')\<close>. \<^verbatim>\<open>await\<close> outside an async function
  is a syntax error of the language, so no call of \<^verbatim>\<open>hashEmail\<close> returns the digest
  that its second statement asks for. The model gives every call that error.
\<close>

definition hashEmail :: "string \<Rightarrow> job_error + string" where
  "hashEmail e = Inl AwaitSyntaxError"

text \<open>
  The loop that logs the delivery events, over the outcome \<open>hash\<close> of the hashing call.
  The argument \<^verbatim>\<open>hashEmail(recipient.email)\<close> is evaluated before the insert is sent.
  The event type is the constant \<^verbatim>\<open>'sent'\<close> for every recipient of the list.
\<close>

fun logDeliveryEvents ::
  "(string \<Rightarrow> job_error + string) \<Rightarrow> instant \<Rightarrow> nat \<Rightarrow> bool \<Rightarrow> recipient list \<Rightarrow> sys
     \<Rightarrow> job_error option \<times> sys" where
  "logDeliveryEvents hash now i tm [] s = (None, s)"
| "logDeliveryEvents hash now i tm (r # rs) s =
     (case hash (email r) of
        Inl e \<Rightarrow> (Some e, s)
      | Inr h \<Rightarrow>
          if EventInsert \<in> set (failing s) then (Some (QueryRejected EventInsert), s)
          else logDeliveryEvents hash now i tm rs
                 (s\<lparr>delivery_events := delivery_events s @
                      [\<lparr>publication_id = i, occurred_at = now, event_type = ''sent'',
                        recipient_hash = h, metadata_ev = [(''test_mode'', JBool tm)]\<rparr>]\<rparr>))"

text \<open>The update the job makes once \<^verbatim>\<open>sendGuidance\<close> has returned.\<close>

definition markPublished :: "safety_config \<Rightarrow> instant \<Rightarrow> send_results \<Rightarrow> nat \<Rightarrow> publication \<Rightarrow> publication" where
  "markPublished cfg now results n p =
     p\<lparr>published_at := Some now,
       successful_deliveries := sent results,
       failed_deliveries := failed_sends results,
       recipients_count := n,
       grace_period_ends_at := Some (now + gracePeriodMinutes cfg * 60 * 1000)\<rparr>"

text \<open>
  The body of \<^verbatim>\<open>publishQueue.process\<close>, with the hashing call as a parameter. A thrown
  error leaves the state as the statements before it made it.
\<close>

definition processWith ::
  "(string \<Rightarrow> job_error + string) \<Rightarrow> safety_config \<Rightarrow> (nat \<Rightarrow> string option) \<Rightarrow> instant \<Rightarrow> job \<Rightarrow> sys
     \<Rightarrow> (job_error + job_return) \<times> sys" where
  "processWith hash cfg transport now j s =
     (if PublicationLookup \<in> set (failing s) then (Inl (QueryRejected PublicationLookup), s)
      else case selectPublication (publicationId j) s of
        None \<Rightarrow> (Inl (PublicationNotFound (publicationId j)), s)
      | Some p \<Rightarrow>
          let safetyCheck = checkBeforePublish cfg s now p in
          if \<not> safe safetyCheck
          then (Inl (SafetyChecksFailed (failed (checks safetyCheck))), s)
          else case (if testMode j then Inr (testRecipients cfg) else getRecipients s p) of
            Inl e \<Rightarrow> (Inl e, s)
          | Inr recipients \<Rightarrow>
              let results = sendGuidance transport recipients in
              if PublicationUpdate \<in> set (failing s)
              then (Inl (QueryRejected PublicationUpdate), s)
              else
                let s1 = updatePublication (publicationId j)
                           (markPublished cfg now results (length recipients)) s
                in case logDeliveryEvents hash now (publicationId j) (testMode j) recipients s1 of
                     (Some e, s2) \<Rightarrow> (Inl e, s2)
                   | (None, s2) \<Rightarrow>
                       (Inr (Completed (publicationId j) (sent results) (failed_sends results)
                               (length recipients)), s2))"

text \<open>The job as the source has it: the hashing call is \<^verbatim>\<open>hashEmail\<close>.\<close>

definition process ::
  "safety_config \<Rightarrow> (nat \<Rightarrow> string option) \<Rightarrow> instant \<Rightarrow> job \<Rightarrow> sys
     \<Rightarrow> (job_error + job_return) \<times> sys" where
  "process = processWith hashEmail"

section \<open>Routes\<close>

record schedule_request =
  req_guidance_draft_id :: nat
  req_segment_id :: "nat option"
  req_scheduled_for :: instant
  req_test_mode :: "bool option"

datatype schedule_response = Scheduled nat instant bool | ScheduleFailed

text \<open>
  \<^verbatim>\<open>POST /publications/schedule\<close>. \<open>new_id\<close> is the identifier the store generates for
  the row; the primary key rejects an identifier already in the table. The columns not
  named in the insert take the defaults of the schema.
\<close>

definition insertedRow :: "instant \<Rightarrow> nat \<Rightarrow> schedule_request \<Rightarrow> publication" where
  "insertedRow now new_id req =
     \<lparr>id_pub = new_id,
      guidance_draft_id = req_guidance_draft_id req,
      segment_id = req_segment_id req,
      publication_channel = ''email'',
      scheduled_for = Some (req_scheduled_for req),
      published_at = None,
      recipients_count = 0,
      successful_deliveries = 0,
      failed_deliveries = 0,
      grace_period_ends_at = None,
      can_rollback = True,
      rolled_back_at = None,
      rollback_reason = None,
      metadata = [(''test_mode'', JBool (case req_test_mode req of None \<Rightarrow> False | Some b \<Rightarrow> b))],
      created_at = now,
      test_mode = None,
      unsubscribe_url = None\<rparr>"

definition queuedJob :: "instant \<Rightarrow> nat \<Rightarrow> schedule_request \<Rightarrow> job" where
  "queuedJob now new_id req =
     \<lparr>publicationId = new_id,
      testMode = (case req_test_mode req of None \<Rightarrow> False | Some b \<Rightarrow> b),
      delay = req_scheduled_for req - now\<rparr>"

definition schedule :: "instant \<Rightarrow> nat \<Rightarrow> schedule_request \<Rightarrow> sys \<Rightarrow> schedule_response \<times> sys" where
  "schedule now new_id req s =
     (if PublicationInsert \<in> set (failing s)
         \<or> new_id \<in> set (map id_pub (guidance_publications s))
      then (ScheduleFailed, s)
      else
        let s1 = s\<lparr>guidance_publications :=
                     guidance_publications s @ [insertedRow now new_id req]\<rparr>
        in if QueueAdd \<in> set (failing s) then (ScheduleFailed, s1)
           else (Scheduled new_id (req_scheduled_for req)
                   (case req_test_mode req of None \<Rightarrow> False | Some b \<Rightarrow> b),
                 s1\<lparr>publishQueue := publishQueue s1 @ [queuedJob now new_id req]\<rparr>))"

datatype rollback_response =
  RolledBack nat
  | NotFound
  | GracePeriodExpired instant
  | ValidationErrors
  | RollbackFailed

definition markRolledBack :: "instant \<Rightarrow> string \<Rightarrow> publication \<Rightarrow> publication" where
  "markRolledBack now reason p =
     p\<lparr>rolled_back_at := Some now, rollback_reason := Some reason, can_rollback := False\<rparr>"

text \<open>
  \<^verbatim>\<open>POST /publications/:id/rollback\<close>: 404 when the row is missing, 400 when the clock
  is after \<^verbatim>\<open>new Date(publication.grace_period_ends_at)\<close>, else the update and 200.
  The handler reads no other column of the row.
\<close>

definition rollback :: "instant \<Rightarrow> nat \<Rightarrow> string \<Rightarrow> sys \<Rightarrow> rollback_response \<times> sys" where
  "rollback now i reason s =
     (if reason = [] then (ValidationErrors, s)
      else if PublicationLookup \<in> set (failing s) then (RollbackFailed, s)
      else case selectPublication i s of
        None \<Rightarrow> (NotFound, s)
      | Some p \<Rightarrow>
          let gracePeriodEnds = dateOf (grace_period_ends_at p) in
          if gracePeriodEnds < now then (GracePeriodExpired gracePeriodEnds, s)
          else if PublicationUpdate \<in> set (failing s) then (RollbackFailed, s)
          else (RolledBack i, updatePublication i (markRolledBack now reason) s))"

record publication_status =
  st_id :: nat
  st_scheduled_for :: "instant option"
  st_published_at :: "instant option"
  st_recipients_count :: nat
  st_successful_deliveries :: nat
  st_failed_deliveries :: nat
  st_can_rollback :: bool
  st_grace_period_ends_at :: "instant option"
  st_rolled_back_at :: "instant option"
  st_events :: "(string \<times> nat) list"

datatype status_response = Status publication_status | StatusNotFound | StatusFailed

text \<open>\<^verbatim>\<open>GET /publications/:id\<close>: a read of the row and of its event counts by type.\<close>

definition eventCounts :: "nat \<Rightarrow> sys \<Rightarrow> (string \<times> nat) list" where
  "eventCounts i s =
     (let evs = filter (\<lambda>e. publication_id e = i) (delivery_events s)
      in map (\<lambda>t. (t, length (filter (\<lambda>e. event_type e = t) evs)))
           (remdups (map event_type evs)))"

definition getPublication :: "nat \<Rightarrow> sys \<Rightarrow> status_response" where
  "getPublication i s =
     (if PublicationLookup \<in> set (failing s) then StatusFailed
      else case selectPublication i s of
        None \<Rightarrow> StatusNotFound
      | Some p \<Rightarrow>
          if EventCount \<in> set (failing s) then StatusFailed
          else Status \<lparr>st_id = id_pub p,
                       st_scheduled_for = scheduled_for p,
                       st_published_at = published_at p,
                       st_recipients_count = recipients_count p,
                       st_successful_deliveries = successful_deliveries p,
                       st_failed_deliveries = failed_deliveries p,
                       st_can_rollback = can_rollback p,
                       st_grace_period_ends_at = grace_period_ends_at p,
                       st_rolled_back_at = rolled_back_at p,
                       st_events = eventCounts i s\<rparr>)"

section \<open>The rollback predicate of the specification\<close>

text \<open>
  The specification's rollback-window predicate, in its own words: not rolled back, a
  window that exists, and the clock strictly before its end. The route is compared with
  it below.
\<close>

definition canRollback_spec :: "publication \<Rightarrow> instant \<Rightarrow> bool" where
  "canRollback_spec p now =
     (rolled_back_at p = None \<and> grace_period_ends_at p \<noteq> None
      \<and> now < dateOf (grace_period_ends_at p))"

text \<open>The invariant that ties \<^verbatim>\<open>rolled_back_at\<close> to \<^verbatim>\<open>can_rollback\<close>.\<close>

definition rollbackInvariant :: "sys \<Rightarrow> bool" where
  "rollbackInvariant s =
     list_all (\<lambda>p. rolled_back_at p = None \<or> \<not> can_rollback p) (guidance_publications s)"




section \<open>Concrete states\<close>

definition emptySys :: sys where
  "emptySys = \<lparr>guidance_publications = [], approval_requests = [], delivery_events = [],
               members = [], publishQueue = [], failing = []\<rparr>"

text \<open>The defaults of \<^verbatim>\<open>config.safety\<close>, with one test address configured.\<close>

definition defaultConfig :: safety_config where
  "defaultConfig = \<lparr>approvalRequired = True, gracePeriodMinutes = 5,
                    testGroupEmails = [''editor@nuj.org.uk''], enableRollback = True\<rparr>"

definition approvedDraft7 :: sys where
  "approvedDraft7 = emptySys\<lparr>approval_requests :=
      [\<lparr>related_entity_id = 7, request_type = ''guidance_publication'', status = ''approved''\<rparr>]\<rparr>"

definition testRequest :: schedule_request where
  "testRequest = \<lparr>req_guidance_draft_id = 7, req_segment_id = None,
                  req_scheduled_for = 1600000, req_test_mode = Some True\<rparr>"

definition fullRequest :: schedule_request where
  "fullRequest = \<lparr>req_guidance_draft_id = 7, req_segment_id = Some 3,
                  req_scheduled_for = 1600000, req_test_mode = None\<rparr>"

text \<open>
  Scenario A: draft 7 is approved; at 1000000 ms a test-mode publication is scheduled
  through the route for 1600000 ms, ten minutes later.
\<close>

definition scenarioA :: sys where
  "scenarioA = snd (schedule 1000000 11 testRequest approvedDraft7)"

text \<open>
  The test-mode publication of scenario A once delivered (the update of the job applied
  to its row), and a full publication of the same draft scheduled through the route after it.
\<close>

definition testDelivered :: sys where
  "testDelivered =
     updatePublication 11
       (markPublished defaultConfig 1600000 \<lparr>sent = 1, failed_sends = 0, errors = []\<rparr> 1)
       scenarioA"

definition fullAfterTest :: sys where
  "fullAfterTest = snd (schedule 2000000 12 (fullRequest\<lparr>req_scheduled_for := 2600000\<rparr>) testDelivered)"

text \<open>
  A state in which the gate can pass for a full publication: a published row of the same
  draft marked \<^verbatim>\<open>is_test\<close>, a row that carries an unsubscribe URL, rollback not
  enforced, and a clock at least the grace period before \<^verbatim>\<open>scheduled_for\<close>. Segment 3
  has three verified, subscribed members and one who unsubscribed.
\<close>

definition priorTest :: publication where
  "priorTest =
     (markPublished defaultConfig 600000 \<lparr>sent = 1, failed_sends = 0, errors = []\<rparr> 1
        (insertedRow 500000 20 testRequest))
      \<lparr>metadata := [(''is_test'', JBool True)]\<rparr>"

definition fullRow :: publication where
  "fullRow = (insertedRow 1000000 21 fullRequest)
      \<lparr>unsubscribe_url := Some ''https://nuj.org.uk/unsubscribe''\<rparr>"

definition segment3 :: "member list" where
  "segment3 =
     [\<lparr>id_m = 31, email_m = ''ann@example.org'', segment_id_m = 3, email_verified = True, subscribed = True\<rparr>,
      \<lparr>id_m = 32, email_m = ''bob@example.org'', segment_id_m = 3, email_verified = True, subscribed = True\<rparr>,
      \<lparr>id_m = 33, email_m = ''cy@example.org'', segment_id_m = 3, email_verified = True, subscribed = False\<rparr>,
      \<lparr>id_m = 34, email_m = ''dee@example.org'', segment_id_m = 3, email_verified = True, subscribed = True\<rparr>]"

definition scenarioC :: sys where
  "scenarioC = approvedDraft7\<lparr>guidance_publications := [priorTest, fullRow], members := segment3\<rparr>"

definition noRollbackConfig :: safety_config where
  "noRollbackConfig = defaultConfig\<lparr>enableRollback := False\<rparr>"

definition fullJob :: job where
  "fullJob = \<lparr>publicationId = 21, testMode = False, delay = 0\<rparr>"


text \<open>
  Scenario C after its job has run with a transport that never throws, and after a first
  rollback inside the window that the job opened.
\<close>

definition deliveredC :: sys where
  "deliveredC = snd (process noRollbackConfig (\<lambda>k. None) 1000000 fullJob scenarioC)"

definition rolledBackC :: sys where
  "rolledBackC = snd (rollback 1100000 21 ''typo in title'' deliveredC)"


text \<open>A delivery event of type \<^verbatim>\<open>sent\<close>, and an event table around the rate limit.\<close>

definition sentEvent :: "nat \<Rightarrow> instant \<Rightarrow> delivery_event" where
  "sentEvent i t = \<lparr>publication_id = i, occurred_at = t, event_type = ''sent'',
                    recipient_hash = ''-'', metadata_ev = []\<rparr>"

definition busyHour :: "delivery_event list" where
  "busyHour =
     replicate 600 (sentEvent 20 4000000) @ replicate 399 (sentEvent 21 4599999)
     @ replicate 300 ((sentEvent 21 4599999)\<lparr>event_type := ''delivered''\<rparr>)
     @ replicate 300 (sentEvent 20 999999) @ [sentEvent 21 1000000]"


section \<open>The lists the guardrails build\<close>

text \<open>Each layer appends to one of the two lists; the verdict is their concatenation.\<close>

lemma layer1_lists:
  "failed (layer1 cfg s p c) = failed c @ (if approvalRequired cfg \<and> \<not> checkApproval s p
      then [fail 1 ''approval_required'' ''Publication requires human approval''] else [])"
  "passed (layer1 cfg s p c) = passed c @ (if approvalRequired cfg \<and> checkApproval s p
      then [pass 1 ''approval_required''] else [])"
  by (simp_all add: layer1_def)

lemma layer2_lists:
  "failed (layer2 cfg now p c) = failed c @ (if \<not> checkGracePeriod cfg now p
      then [fail 2 ''grace_period'' ''Publication must respect grace period''] else [])"
  "passed (layer2 cfg now p c) = passed c @ (if checkGracePeriod cfg now p
      then [pass 2 ''grace_period''] else [])"
  by (simp_all add: layer2_def)

lemma layer3_lists:
  "failed (layer3 s p c) = failed c @ (if \<not> checkTestGroup s p
      then [fail 3 ''test_group'' ''Test group delivery required first''] else [])"
  "passed (layer3 s p c) = passed c @ (if checkTestGroup s p
      then [pass 3 ''test_group''] else [])"
  by (simp_all add: layer3_def)

lemma layer4_lists:
  "failed (layer4 cfg now p c) = failed c @ (if \<not> checkRollbackCapability now p \<and> enableRollback cfg
      then [fail 4 ''rollback_capability'' ''Rollback must be available''] else [])"
  "passed (layer4 cfg now p c) = passed c @ (if \<not> checkRollbackCapability now p \<and> enableRollback cfg
      then [] else [pass 4 ''rollback_capability''])"
  by (simp_all add: layer4_def)

lemma dataProtection_lists:
  "failed (checkDataProtection p) = (if \<not> truthy (unsubscribe_url p)
      then [fail 8 ''gdpr_compliance'' ''Unsubscribe URL required''] else [])"
  "passed (checkDataProtection p) =
     [pass 5 ''member_data_encryption'', pass 6 ''access_control'', pass 7 ''audit_logging'']
     @ (if truthy (unsubscribe_url p) then [pass 8 ''gdpr_compliance''] else [])
     @ [pass 9 ''data_retention'', pass 10 ''privacy_by_design'']"
  by (simp_all add: checkDataProtection_def Let_def)

lemma operational_lists:
  "failed (checkOperationalSafety s now) = (if \<not> checkRateLimit s now
      then [fail 11 ''rate_limiting'' ''Rate limit exceeded''] else [])"
  "passed (checkOperationalSafety s now) =
     (if checkRateLimit s now then [pass 11 ''rate_limiting''] else [])
     @ [pass 12 ''graceful_degradation'', pass 13 ''backup_systems'',
        pass 14 ''disaster_recovery'', pass 15 ''health_monitoring'']"
  by (simp_all add: checkOperationalSafety_def Let_def)

lemma monitoring_lists:
  "failed checkMonitoring = []"
  "passed checkMonitoring = [pass 16 ''change_notifications'', pass 17 ''service_health'',
                pass 18 ''anomaly_detection'', pass 19 ''delivery_tracking'']"
  by (simp_all add: checkMonitoring_def)

lemma push_lists:
  "failed (push c d) = failed c @ failed d"
  "passed (push c d) = passed c @ passed d"
  by (simp_all add: push_def)

lemma failed_checkBeforePublish:
  "failed (checks (checkBeforePublish cfg s now p)) =
     (if approvalRequired cfg \<and> \<not> checkApproval s p
      then [fail 1 ''approval_required'' ''Publication requires human approval''] else [])
   @ (if \<not> checkGracePeriod cfg now p
      then [fail 2 ''grace_period'' ''Publication must respect grace period''] else [])
   @ (if \<not> checkTestGroup s p
      then [fail 3 ''test_group'' ''Test group delivery required first''] else [])
   @ (if \<not> checkRollbackCapability now p \<and> enableRollback cfg
      then [fail 4 ''rollback_capability'' ''Rollback must be available''] else [])
   @ (if \<not> truthy (unsubscribe_url p)
      then [fail 8 ''gdpr_compliance'' ''Unsubscribe URL required''] else [])
   @ (if \<not> checkRateLimit s now
      then [fail 11 ''rate_limiting'' ''Rate limit exceeded''] else [])"
  unfolding checkBeforePublish_def Let_def
  by (simp only: safety_check.simps push_lists layer1_lists layer2_lists layer3_lists layer4_lists
        dataProtection_lists operational_lists monitoring_lists check_lists.simps append_Nil append_Nil2 append_assoc)

lemma passed_checkBeforePublish:
  "passed (checks (checkBeforePublish cfg s now p)) =
     (if approvalRequired cfg \<and> checkApproval s p then [pass 1 ''approval_required''] else [])
   @ (if checkGracePeriod cfg now p then [pass 2 ''grace_period''] else [])
   @ (if checkTestGroup s p then [pass 3 ''test_group''] else [])
   @ (if \<not> checkRollbackCapability now p \<and> enableRollback cfg
      then [] else [pass 4 ''rollback_capability''])
   @ [pass 5 ''member_data_encryption'', pass 6 ''access_control'', pass 7 ''audit_logging'']
   @ (if truthy (unsubscribe_url p) then [pass 8 ''gdpr_compliance''] else [])
   @ [pass 9 ''data_retention'', pass 10 ''privacy_by_design'']
   @ (if checkRateLimit s now then [pass 11 ''rate_limiting''] else [])
   @ [pass 12 ''graceful_degradation'', pass 13 ''backup_systems'',
      pass 14 ''disaster_recovery'', pass 15 ''health_monitoring'',
      pass 16 ''change_notifications'', pass 17 ''service_health'',
      pass 18 ''anomaly_detection'', pass 19 ''delivery_tracking'']"
  unfolding checkBeforePublish_def Let_def
  by (simp only: safety_check.simps push_lists layer1_lists layer2_lists layer3_lists layer4_lists
        dataProtection_lists operational_lists monitoring_lists check_lists.simps append_Nil append_Nil2 append_assoc append_Cons)

lemma safe_checkBeforePublish:
  "safe (checkBeforePublish cfg s now p) = (failed (checks (checkBeforePublish cfg s now p)) = [])"
  by (simp add: checkBeforePublish_def Let_def)

lemma safe_iff:
  "safe (checkBeforePublish cfg s now p) =
     ((\<not> approvalRequired cfg \<or> checkApproval s p) \<and> checkGracePeriod cfg now p \<and> checkTestGroup s p
      \<and> (checkRollbackCapability now p \<or> \<not> enableRollback cfg)
      \<and> truthy (unsubscribe_url p) \<and> checkRateLimit s now)"
  unfolding safe_checkBeforePublish failed_checkBeforePublish
  by (simp only: append_is_Nil_conv) auto

lemma checkApproval_failing_cong:
  "(ApprovalLookup \<in> set (failing s')) = (ApprovalLookup \<in> set (failing s)) \<Longrightarrow>
   approval_requests s' = approval_requests s \<Longrightarrow> checkApproval s' p = checkApproval s p"
  by (simp add: checkApproval_def approvedRequests_def)

lemma checkTestGroup_failing_cong:
  "(TestGroupLookup \<in> set (failing s')) = (TestGroupLookup \<in> set (failing s)) \<Longrightarrow>
   guidance_publications s' = guidance_publications s \<Longrightarrow> checkTestGroup s' p = checkTestGroup s p"
  by (simp add: checkTestGroup_def testGroupRows_def)

section \<open>The store and the job\<close>

lemma find_map_keep:
  "(\<And>p. id_pub (f p) = id_pub p) \<Longrightarrow>
   List.find (\<lambda>p. id_pub p = j) (map (\<lambda>p. if id_pub p = i then f p else p) ps)
     = (if j = i then map_option f (List.find (\<lambda>p. id_pub p = j) ps)
        else List.find (\<lambda>p. id_pub p = j) ps)"
  by (induction ps) auto

lemma select_update:
  "(\<And>p. id_pub (f p) = id_pub p) \<Longrightarrow>
   selectPublication j (updatePublication i f s)
     = (if j = i then map_option f (selectPublication j s) else selectPublication j s)"
  by (simp add: selectPublication_def updatePublication_def find_map_keep)

lemma id_markPublished [simp]: "id_pub (markPublished cfg now r n p) = id_pub p"
  by (simp add: markPublished_def)

lemma id_markRolledBack [simp]: "id_pub (markRolledBack now reason p) = id_pub p"
  by (simp add: markRolledBack_def)

lemma update_fields [simp]:
  "approval_requests (updatePublication i f s) = approval_requests s"
  "delivery_events (updatePublication i f s) = delivery_events s"
  "members (updatePublication i f s) = members s"
  "publishQueue (updatePublication i f s) = publishQueue s"
  "failing (updatePublication i f s) = failing s"
  "guidance_publications (updatePublication i f s)
     = map (\<lambda>p. if id_pub p = i then f p else p) (guidance_publications s)"
  by (simp_all add: updatePublication_def)

lemma log_fields:
  "logDeliveryEvents h now i tm rs s = (r, s') \<Longrightarrow>
     guidance_publications s' = guidance_publications s \<and> approval_requests s' = approval_requests s
     \<and> members s' = members s \<and> publishQueue s' = publishQueue s \<and> failing s' = failing s"
proof (induction rs arbitrary: s)
  case Nil
  then show ?case by simp
next
  case (Cons a rs)
  show ?case
  proof (cases "h (email a)")
    case (Inl e)
    with Cons.prems show ?thesis by simp
  next
    case (Inr d)
    show ?thesis
    proof (cases "EventInsert \<in> set (failing s)")
      case True
      with Inr Cons.prems show ?thesis by simp
    next
      case False
      with Inr Cons.prems Cons.IH[of "s\<lparr>delivery_events := delivery_events s @
                      [\<lparr>publication_id = i, occurred_at = now, event_type = ''sent'',
                        recipient_hash = d, metadata_ev = [(''test_mode'', JBool tm)]\<rparr>]\<rparr>"]
      show ?thesis by simp
    qed
  qed
qed


lemma log_hashEmail:
  "logDeliveryEvents hashEmail now i tm rs s = (if rs = [] then None else Some AwaitSyntaxError, s)"
  by (cases rs) (simp_all add: hashEmail_def)



lemma sendLoop_errors:
  "length (errors (sendLoop tr k rs res)) + failed_sends res
     = length (errors res) + failed_sends (sendLoop tr k rs res)"
proof (induction rs arbitrary: k res)
  case Nil
  show ?case by simp
next
  case (Cons a rs)
  show ?case
  proof (cases "tr k")
    case None
    with Cons.IH[of "Suc k" "res\<lparr>sent := sent res + 1\<rparr>"] show ?thesis by simp
  next
    case (Some msg)
    with Cons.IH[of "Suc k" "res\<lparr>failed_sends := failed_sends res + 1,
                     errors := errors res @ [(email a, msg)]\<rparr>"] show ?thesis by simp
  qed
qed

lemma processWith_unsafe:
  "PublicationLookup \<notin> set (failing s) \<Longrightarrow> selectPublication (publicationId j) s = Some p \<Longrightarrow>
   \<not> safe (checkBeforePublish cfg s now p) \<Longrightarrow>
   processWith h cfg tr now j s
     = (Inl (SafetyChecksFailed (failed (checks (checkBeforePublish cfg s now p)))), s)"
  by (simp add: processWith_def Let_def)

lemma processWith_safe:
  "PublicationLookup \<notin> set (failing s) \<Longrightarrow> selectPublication (publicationId j) s = Some p \<Longrightarrow>
   safe (checkBeforePublish cfg s now p) \<Longrightarrow>
   (if testMode j then Inr (testRecipients cfg) else getRecipients s p) = Inr rs \<Longrightarrow>
   PublicationUpdate \<notin> set (failing s) \<Longrightarrow>
   processWith h cfg tr now j s
     = (case logDeliveryEvents h now (publicationId j) (testMode j) rs
               (updatePublication (publicationId j)
                  (markPublished cfg now (sendGuidance tr rs) (length rs)) s) of
          (Some e, s2) \<Rightarrow> (Inl e, s2)
        | (None, s2) \<Rightarrow>
            (Inr (Completed (publicationId j) (sent (sendGuidance tr rs))
                    (failed_sends (sendGuidance tr rs)) (length rs)), s2))"
  by (simp add: processWith_def Let_def)

section \<open>Facts about the concrete states\<close>

lemma scenarioA_fields:
  "guidance_publications scenarioA = [insertedRow 1000000 11 testRequest]"
  "publishQueue scenarioA = [queuedJob 1000000 11 testRequest]"
  "failing scenarioA = []"
  "approval_requests scenarioA = approval_requests approvedDraft7"
  "delivery_events scenarioA = []"
  "members scenarioA = []"
  by (simp_all add: scenarioA_def schedule_def approvedDraft7_def emptySys_def Let_def)

lemma checkGracePeriod_late:
  "0 < gracePeriodMinutes cfg \<Longrightarrow> scheduled_for p = Some t \<Longrightarrow> t \<le> now \<Longrightarrow> \<not> checkGracePeriod cfg now p"
  by (simp add: checkGracePeriod_def)

lemma insertedRow_fields:
  "id_pub (insertedRow now n req) = n"
  "guidance_draft_id (insertedRow now n req) = req_guidance_draft_id req"
  "segment_id (insertedRow now n req) = req_segment_id req"
  "publication_channel (insertedRow now n req) = ''email''"
  "scheduled_for (insertedRow now n req) = Some (req_scheduled_for req)"
  "published_at (insertedRow now n req) = None"
  "grace_period_ends_at (insertedRow now n req) = None"
  "can_rollback (insertedRow now n req) = True"
  "rolled_back_at (insertedRow now n req) = None"
  "rollback_reason (insertedRow now n req) = None"
  "metadata (insertedRow now n req)
     = [(''test_mode'', JBool (case req_test_mode req of None \<Rightarrow> False | Some b \<Rightarrow> b))]"
  "created_at (insertedRow now n req) = now"
  "test_mode (insertedRow now n req) = None"
  "unsubscribe_url (insertedRow now n req) = None"
  by (simp_all add: insertedRow_def)

lemma request_fields:
  "req_guidance_draft_id testRequest = 7" "req_segment_id testRequest = None"
  "req_scheduled_for testRequest = 1600000" "req_test_mode testRequest = Some True"
  "req_guidance_draft_id fullRequest = 7" "req_segment_id fullRequest = Some 3"
  "req_scheduled_for fullRequest = 1600000" "req_test_mode fullRequest = None"
  by (simp_all add: testRequest_def fullRequest_def)

lemma defaultConfig_fields:
  "approvalRequired defaultConfig" "gracePeriodMinutes defaultConfig = 5"
  "testGroupEmails defaultConfig = [''editor@nuj.org.uk'']" "enableRollback defaultConfig"
  by (simp_all add: defaultConfig_def)

lemma fullAfterTest_fields:
  "guidance_publications fullAfterTest =
     [markPublished defaultConfig 1600000 \<lparr>sent = 1, failed_sends = 0, errors = []\<rparr> 1
        (insertedRow 1000000 11 testRequest),
      insertedRow 2000000 12 (fullRequest\<lparr>req_scheduled_for := 2600000\<rparr>)]"
  "failing fullAfterTest = []"
  by (simp_all add: fullAfterTest_def testDelivered_def schedule_def Let_def scenarioA_fields
        insertedRow_fields)

section \<open>Approval (layer 1)\<close>

text \<open>
  C10. When the approval lookup is rejected, \<^verbatim>\<open>checkApproval\<close> answers false: with
  approval required, layer 1 is reported as failed and the verdict is unsafe. Whenever a
  layer-1 entry stands in the passed list, the lookup succeeded and found an approved
  request for the draft. With both lookups rejected the approval check fails while the
  rate-limit check passes.
\<close>

theorem approval_fails_closed:
  "(ApprovalLookup \<in> set (failing s) \<longrightarrow> \<not> checkApproval s p)
   \<and> (ApprovalLookup \<in> set (failing s) \<and> approvalRequired cfg \<longrightarrow>
        fail 1 ''approval_required'' ''Publication requires human approval''
          \<in> set (failed (checks (checkBeforePublish cfg s now p)))
        \<and> \<not> safe (checkBeforePublish cfg s now p))
   \<and> (filter (\<lambda>c. layer c = 1) (passed (checks (checkBeforePublish cfg s now p))) \<noteq> [] \<longrightarrow>
        ApprovalLookup \<notin> set (failing s) \<and> approvedRequests s p \<noteq> [])
   \<and> (ApprovalLookup \<in> set (failing s) \<and> SentCount \<in> set (failing s) \<longrightarrow>
        \<not> checkApproval s p \<and> checkRateLimit s now)"
proof -
  have closed: "ApprovalLookup \<in> set (failing s) \<Longrightarrow> \<not> checkApproval s p"
    by (simp add: checkApproval_def)
  have blocked: "fail 1 ''approval_required'' ''Publication requires human approval''
          \<in> set (failed (checks (checkBeforePublish cfg s now p)))
        \<and> \<not> safe (checkBeforePublish cfg s now p)"
    if "ApprovalLookup \<in> set (failing s)" "approvalRequired cfg"
    using that closed by (simp add: safe_iff failed_checkBeforePublish)
  have recorded: "ApprovalLookup \<notin> set (failing s) \<and> approvedRequests s p \<noteq> []"
    if "filter (\<lambda>c. layer c = 1) (passed (checks (checkBeforePublish cfg s now p))) \<noteq> []"
  proof -
    from that have "checkApproval s p"
      by (simp add: passed_checkBeforePublish pass_def split: if_splits)
    then show ?thesis by (simp add: checkApproval_def split: if_splits)
  qed
  have "open": "SentCount \<in> set (failing s) \<Longrightarrow> checkRateLimit s now"
    by (simp add: checkRateLimit_def)
  from closed blocked recorded "open" show ?thesis by blast
qed

text \<open>
  The theorem at scenario A with the approval lookup rejected: the approved request is
  in the table, and the gate still fails at layer 1.
\<close>

theorem approval_fails_closed_witness:
  "ApprovalLookup \<in> set (failing (scenarioA\<lparr>failing := [ApprovalLookup]\<rparr>))
   \<and> approvalRequired defaultConfig
   \<and> approvedRequests (scenarioA\<lparr>failing := [ApprovalLookup]\<rparr>) (insertedRow 1000000 11 testRequest) \<noteq> []
   \<and> \<not> checkApproval (scenarioA\<lparr>failing := [ApprovalLookup]\<rparr>) (insertedRow 1000000 11 testRequest)
   \<and> fail 1 ''approval_required'' ''Publication requires human approval''
        \<in> set (failed (checks (checkBeforePublish defaultConfig
              (scenarioA\<lparr>failing := [ApprovalLookup]\<rparr>) 1000000 (insertedRow 1000000 11 testRequest))))
   \<and> \<not> safe (checkBeforePublish defaultConfig
              (scenarioA\<lparr>failing := [ApprovalLookup]\<rparr>) 1000000 (insertedRow 1000000 11 testRequest))"
proof -
  have a: "ApprovalLookup \<in> set (failing (scenarioA\<lparr>failing := [ApprovalLookup]\<rparr>))" by simp
  have c: "approvalRequired defaultConfig" by (simp add: defaultConfig_def)
  have r: "approvedRequests (scenarioA\<lparr>failing := [ApprovalLookup]\<rparr>) (insertedRow 1000000 11 testRequest) \<noteq> []"
    by (simp add: approvedRequests_def scenarioA_fields approvedDraft7_def emptySys_def
          insertedRow_def testRequest_def)
  from a c r approval_fails_closed[of "scenarioA\<lparr>failing := [ApprovalLookup]\<rparr>"
      "insertedRow 1000000 11 testRequest" defaultConfig 1000000]
  show ?thesis by blast
qed

section \<open>Grace period (layer 2)\<close>

text \<open>
  C1, evaluated on scenario A. The row the route created is scheduled ten minutes after
  its creation, twice the grace period of five minutes. When the job runs at the
  scheduled instant, \<^verbatim>\<open>checkGracePeriod\<close> is false, the verdict is unsafe, and the job
  throws with the failed layers 2, 3, 4 and 8; nothing is sent and the state is unchanged.
\<close>

theorem scenario_A_gate_fails:
  "guidance_publications scenarioA = [insertedRow 1000000 11 testRequest]
   \<and> publishQueue scenarioA = [queuedJob 1000000 11 testRequest]
   \<and> scheduled_for (insertedRow 1000000 11 testRequest)
       = Some (created_at (insertedRow 1000000 11 testRequest) + 10 * 60 * 1000)
   \<and> \<not> checkGracePeriod defaultConfig 1600000 (insertedRow 1000000 11 testRequest)
   \<and> \<not> safe (checkBeforePublish defaultConfig scenarioA 1600000 (insertedRow 1000000 11 testRequest))
   \<and> process defaultConfig (\<lambda>k. None) 1600000 (queuedJob 1000000 11 testRequest) scenarioA
      = (Inl (SafetyChecksFailed
           [fail 2 ''grace_period'' ''Publication must respect grace period'',
            fail 3 ''test_group'' ''Test group delivery required first'',
            fail 4 ''rollback_capability'' ''Rollback must be available'',
            fail 8 ''gdpr_compliance'' ''Unsubscribe URL required'']), scenarioA)"
proof -
  let ?p = "insertedRow 1000000 11 testRequest"
  have g: "\<not> checkGracePeriod defaultConfig 1600000 ?p"
    by (rule checkGracePeriod_late[where t = 1600000])
       (simp_all add: insertedRow_fields request_fields defaultConfig_fields)
  have a: "checkApproval scenarioA ?p"
    by (simp add: checkApproval_def approvedRequests_def scenarioA_fields approvedDraft7_def
          emptySys_def insertedRow_fields request_fields)
  have t: "\<not> checkTestGroup scenarioA ?p"
    by (simp add: checkTestGroup_def testGroupRows_def scenarioA_fields insertedRow_fields
          request_fields get_text_def)
  have r: "\<not> checkRollbackCapability 1600000 ?p"
    by (simp add: checkRollbackCapability_def dateOf_def insertedRow_fields)
  have u: "\<not> truthy (unsubscribe_url ?p)"
    by (simp add: truthy_def insertedRow_fields)
  have l: "checkRateLimit scenarioA 1600000"
    by (simp add: checkRateLimit_def sentLastHour_def scenarioA_fields)
  have f: "failed (checks (checkBeforePublish defaultConfig scenarioA 1600000 ?p)) =
           [fail 2 ''grace_period'' ''Publication must respect grace period'',
            fail 3 ''test_group'' ''Test group delivery required first'',
            fail 4 ''rollback_capability'' ''Rollback must be available'',
            fail 8 ''gdpr_compliance'' ''Unsubscribe URL required'']"
    by (simp add: failed_checkBeforePublish g a t r u l defaultConfig_fields)
  have s: "\<not> safe (checkBeforePublish defaultConfig scenarioA 1600000 ?p)"
    by (simp add: safe_checkBeforePublish f)
  have sel: "selectPublication (publicationId (queuedJob 1000000 11 testRequest)) scenarioA = Some ?p"
    by (simp add: selectPublication_def scenarioA_fields queuedJob_def insertedRow_fields)
  have pr: "process defaultConfig (\<lambda>k. None) 1600000 (queuedJob 1000000 11 testRequest) scenarioA
      = (Inl (SafetyChecksFailed (failed (checks (checkBeforePublish defaultConfig scenarioA 1600000 ?p)))), scenarioA)"
    unfolding process_def
    by (rule processWith_unsafe[OF _ sel s]) (simp add: scenarioA_fields)
  have c: "scheduled_for ?p = Some (created_at ?p + 10 * 60 * 1000)"
    by (simp add: insertedRow_fields request_fields)
  show ?thesis
    using g s c by (simp only: pr f scenarioA_fields simp_thms)
qed

section \<open>Test group (layer 3)\<close>

text \<open>
  C4, evaluated on a test-mode publication scheduled through the route and delivered,
  followed by a full publication of the same draft scheduled through the route. The
  route stores the flag under the metadata key \<^verbatim>\<open>test_mode\<close>; the check reads the row
  property \<^verbatim>\<open>test_mode\<close> and the metadata key \<^verbatim>\<open>is_test\<close>. Layer 3 fails for both
  rows.
\<close>

theorem test_group_key_mismatch:
  "map (\<lambda>p. (id_pub p, guidance_draft_id p, published_at p, get_text (metadata p) ''test_mode'',
             get_text (metadata p) ''is_test'', test_mode p))
       (guidance_publications fullAfterTest)
     = [(11, 7, Some 1600000, Some ''true'', None, None),
        (12, 7, None, Some ''false'', None, None)]
   \<and> map (checkTestGroup fullAfterTest) (guidance_publications fullAfterTest) = [False, False]"
  by (simp add: fullAfterTest_fields checkTestGroup_def testGroupRows_def markPublished_def
        insertedRow_fields request_fields get_text_def)

section \<open>Scenario C and the job\<close>

lemma noRollbackConfig_fields:
  "approvalRequired noRollbackConfig" "gracePeriodMinutes noRollbackConfig = 5"
  "testGroupEmails noRollbackConfig = [''editor@nuj.org.uk'']" "\<not> enableRollback noRollbackConfig"
  by (simp_all add: noRollbackConfig_def defaultConfig_def)

lemma fullRow_fields:
  "id_pub fullRow = 21" "guidance_draft_id fullRow = 7" "segment_id fullRow = Some 3"
  "scheduled_for fullRow = Some 1600000" "grace_period_ends_at fullRow = None"
  "test_mode fullRow = None" "unsubscribe_url fullRow = Some ''https://nuj.org.uk/unsubscribe''"
  "rolled_back_at fullRow = None" "can_rollback fullRow" "published_at fullRow = None"
  by (simp_all add: fullRow_def insertedRow_fields request_fields)

lemma priorTest_fields:
  "id_pub priorTest = 20" "guidance_draft_id priorTest = 7" "publication_channel priorTest = ''email''"
  "published_at priorTest = Some 600000" "metadata priorTest = [(''is_test'', JBool True)]"
  "grace_period_ends_at priorTest = Some 900000" "rolled_back_at priorTest = None"
  "successful_deliveries priorTest = 1"
  by (simp_all add: priorTest_def markPublished_def insertedRow_fields request_fields defaultConfig_fields)

lemma scenarioC_fields:
  "guidance_publications scenarioC = [priorTest, fullRow]"
  "members scenarioC = segment3"
  "failing scenarioC = []"
  "delivery_events scenarioC = []"
  "publishQueue scenarioC = []"
  "approval_requests scenarioC =
     [\<lparr>related_entity_id = 7, request_type = ''guidance_publication'', status = ''approved''\<rparr>]"
  by (simp_all add: scenarioC_def approvedDraft7_def emptySys_def)

lemma fullJob_fields: "publicationId fullJob = 21" "\<not> testMode fullJob"
  by (simp_all add: fullJob_def)

lemma scenarioC_select: "selectPublication 21 scenarioC = Some fullRow"
  by (simp add: selectPublication_def scenarioC_fields priorTest_fields fullRow_fields)

lemma scenarioC_safe: "safe (checkBeforePublish noRollbackConfig scenarioC 1000000 fullRow)"
proof -
  have a: "checkApproval scenarioC fullRow"
    by (simp add: checkApproval_def approvedRequests_def scenarioC_fields fullRow_fields)
  have g: "checkGracePeriod noRollbackConfig 1000000 fullRow"
    by (simp add: checkGracePeriod_def fullRow_fields noRollbackConfig_fields)
  have t: "checkTestGroup scenarioC fullRow"
    by (simp add: checkTestGroup_def testGroupRows_def scenarioC_fields fullRow_fields
          priorTest_fields get_text_def)
  have u: "truthy (unsubscribe_url fullRow)"
    by (simp add: truthy_def fullRow_fields)
  have l: "checkRateLimit scenarioC 1000000"
    by (simp add: checkRateLimit_def sentLastHour_def scenarioC_fields)
  show ?thesis
    by (simp add: safe_iff a g t u l noRollbackConfig_fields)
qed

lemma scenarioC_recipients:
  "getRecipients scenarioC fullRow =
     Inr [\<lparr>id_r = MemberId 31, email = ''ann@example.org''\<rparr>,
          \<lparr>id_r = MemberId 32, email = ''bob@example.org''\<rparr>,
          \<lparr>id_r = MemberId 34, email = ''dee@example.org''\<rparr>]"
  by (simp add: getRecipients_def scenarioC_fields fullRow_fields segment3_def)

lemma scenarioC_process:
  "processWith h noRollbackConfig tr 1000000 fullJob scenarioC =
     (case logDeliveryEvents h 1000000 21 False
             [\<lparr>id_r = MemberId 31, email = ''ann@example.org''\<rparr>,
              \<lparr>id_r = MemberId 32, email = ''bob@example.org''\<rparr>,
              \<lparr>id_r = MemberId 34, email = ''dee@example.org''\<rparr>]
             (updatePublication 21
                (markPublished noRollbackConfig 1000000
                   (sendGuidance tr [\<lparr>id_r = MemberId 31, email = ''ann@example.org''\<rparr>,
                      \<lparr>id_r = MemberId 32, email = ''bob@example.org''\<rparr>,
                      \<lparr>id_r = MemberId 34, email = ''dee@example.org''\<rparr>]) 3) scenarioC) of
        (Some e, s2) \<Rightarrow> (Inl e, s2)
      | (None, s2) \<Rightarrow>
          (Inr (Completed 21
             (sent (sendGuidance tr [\<lparr>id_r = MemberId 31, email = ''ann@example.org''\<rparr>,
                      \<lparr>id_r = MemberId 32, email = ''bob@example.org''\<rparr>,
                      \<lparr>id_r = MemberId 34, email = ''dee@example.org''\<rparr>]))
             (failed_sends (sendGuidance tr [\<lparr>id_r = MemberId 31, email = ''ann@example.org''\<rparr>,
                      \<lparr>id_r = MemberId 32, email = ''bob@example.org''\<rparr>,
                      \<lparr>id_r = MemberId 34, email = ''dee@example.org''\<rparr>])) 3), s2))"
proof -
  have sel: "selectPublication (publicationId fullJob) scenarioC = Some fullRow"
    by (simp add: fullJob_fields scenarioC_select)
  have rs: "(if testMode fullJob then Inr (testRecipients noRollbackConfig)
             else getRecipients scenarioC fullRow) =
     Inr [\<lparr>id_r = MemberId 31, email = ''ann@example.org''\<rparr>,
          \<lparr>id_r = MemberId 32, email = ''bob@example.org''\<rparr>,
          \<lparr>id_r = MemberId 34, email = ''dee@example.org''\<rparr>]"
    by (simp add: fullJob_fields scenarioC_recipients)
  have "processWith h noRollbackConfig tr 1000000 fullJob scenarioC = 
      (case logDeliveryEvents h 1000000 (publicationId fullJob) (testMode fullJob)
             [\<lparr>id_r = MemberId 31, email = ''ann@example.org''\<rparr>,
              \<lparr>id_r = MemberId 32, email = ''bob@example.org''\<rparr>,
              \<lparr>id_r = MemberId 34, email = ''dee@example.org''\<rparr>]
             (updatePublication (publicationId fullJob)
                (markPublished noRollbackConfig 1000000
                   (sendGuidance tr [\<lparr>id_r = MemberId 31, email = ''ann@example.org''\<rparr>,
                      \<lparr>id_r = MemberId 32, email = ''bob@example.org''\<rparr>,
                      \<lparr>id_r = MemberId 34, email = ''dee@example.org''\<rparr>]) (length [\<lparr>id_r = MemberId 31, email = ''ann@example.org''\<rparr>,
                      \<lparr>id_r = MemberId 32, email = ''bob@example.org''\<rparr>,
                      \<lparr>id_r = MemberId 34, email = ''dee@example.org''\<rparr>])) scenarioC) of
        (Some e, s2) \<Rightarrow> (Inl e, s2)
      | (None, s2) \<Rightarrow>
          (Inr (Completed (publicationId fullJob)
             (sent (sendGuidance tr [\<lparr>id_r = MemberId 31, email = ''ann@example.org''\<rparr>,
                      \<lparr>id_r = MemberId 32, email = ''bob@example.org''\<rparr>,
                      \<lparr>id_r = MemberId 34, email = ''dee@example.org''\<rparr>]))
             (failed_sends (sendGuidance tr [\<lparr>id_r = MemberId 31, email = ''ann@example.org''\<rparr>,
                      \<lparr>id_r = MemberId 32, email = ''bob@example.org''\<rparr>,
                      \<lparr>id_r = MemberId 34, email = ''dee@example.org''\<rparr>])) (length [\<lparr>id_r = MemberId 31, email = ''ann@example.org''\<rparr>,
                      \<lparr>id_r = MemberId 32, email = ''bob@example.org''\<rparr>,
                      \<lparr>id_r = MemberId 34, email = ''dee@example.org''\<rparr>])), s2))"
    by (rule processWith_safe[OF _ sel scenarioC_safe rs]) (simp_all add: scenarioC_fields)
  moreover have "length [\<lparr>id_r = MemberId 31, email = ''ann@example.org''\<rparr>,
                      \<lparr>id_r = MemberId 32, email = ''bob@example.org''\<rparr>,
                      \<lparr>id_r = MemberId 34, email = ''dee@example.org''\<rparr>] = 3" by simp
  ultimately show ?thesis by (simp only: fullJob_fields)
qed

lemma sendGuidance_all_ok3:
  "sendGuidance (\<lambda>k. None) [a, b, c] = \<lparr>sent = 3, failed_sends = 0, errors = []\<rparr>"
  by (simp add: sendGuidance_def)



lemma markPublished_fields:
  "published_at (markPublished cfg now r n p) = Some now"
  "grace_period_ends_at (markPublished cfg now r n p) = Some (now + gracePeriodMinutes cfg * 60 * 1000)"
  "successful_deliveries (markPublished cfg now r n p) = sent r"
  "failed_deliveries (markPublished cfg now r n p) = failed_sends r"
  "recipients_count (markPublished cfg now r n p) = n"
  "rolled_back_at (markPublished cfg now r n p) = rolled_back_at p"
  "can_rollback (markPublished cfg now r n p) = can_rollback p"
  "rollback_reason (markPublished cfg now r n p) = rollback_reason p"
  by (simp_all add: markPublished_def)

lemma process_scenarioC_hashEmail:
  "process noRollbackConfig tr 1000000 fullJob scenarioC =
     (Inl AwaitSyntaxError,
      updatePublication 21
        (markPublished noRollbackConfig 1000000
           (sendGuidance tr [\<lparr>id_r = MemberId 31, email = ''ann@example.org''\<rparr>,
                             \<lparr>id_r = MemberId 32, email = ''bob@example.org''\<rparr>,
                             \<lparr>id_r = MemberId 34, email = ''dee@example.org''\<rparr>]) 3) scenarioC)"
  unfolding process_def scenarioC_process log_hashEmail by simp

lemma select_cong:
  "guidance_publications s' = guidance_publications s \<Longrightarrow> selectPublication i s' = selectPublication i s"
  by (simp add: selectPublication_def)








section \<open>Rate limit (layer 11)\<close>

text \<open>
  C8. The rate-limit check fails exactly when the count query is accepted and the table
  of delivery events, over all publications, holds at least 1000 events of type
  \<^verbatim>\<open>sent\<close> whose time is later than one hour (3600000 ms) before the clock; when the
  count query is rejected the check passes. The same holds for the layer-11 entry of
  the verdict. Making the count query fail changes the entry of no other layer, in
  either list of the verdict.
\<close>

theorem rate_limit_fails_open:
  "(\<not> checkRateLimit s now)
      = (SentCount \<notin> set (failing s)
         \<and> 1000 \<le> length (filter (\<lambda>e. event_type e = ''sent'' \<and> now - 3600000 < occurred_at e)
                           (delivery_events s)))
   \<and> (fail 11 ''rate_limiting'' ''Rate limit exceeded''
         \<in> set (failed (checks (checkBeforePublish cfg s now p))))
       = (SentCount \<notin> set (failing s)
          \<and> 1000 \<le> length (filter (\<lambda>e. event_type e = ''sent'' \<and> now - 3600000 < occurred_at e)
                            (delivery_events s)))
   \<and> (pass 11 ''rate_limiting'' \<in> set (passed (checks (checkBeforePublish cfg s now p))))
       = (SentCount \<in> set (failing s)
          \<or> length (filter (\<lambda>e. event_type e = ''sent'' \<and> now - 3600000 < occurred_at e)
                      (delivery_events s)) < 1000)
   \<and> filter (\<lambda>c. layer c \<noteq> 11)
        (passed (checks (checkBeforePublish cfg (s\<lparr>failing := SentCount # failing s\<rparr>) now p)))
       = filter (\<lambda>c. layer c \<noteq> 11) (passed (checks (checkBeforePublish cfg s now p)))
   \<and> filter (\<lambda>c. layer c \<noteq> 11)
        (failed (checks (checkBeforePublish cfg (s\<lparr>failing := SentCount # failing s\<rparr>) now p)))
       = filter (\<lambda>c. layer c \<noteq> 11) (failed (checks (checkBeforePublish cfg s now p)))"
proof -
  let ?s' = "s\<lparr>failing := SentCount # failing s\<rparr>"
  let ?n = "length (filter (\<lambda>e. event_type e = ''sent'' \<and> now - 3600000 < occurred_at e)
                      (delivery_events s))"
  have rl: "(\<not> checkRateLimit s now) = (SentCount \<notin> set (failing s) \<and> 1000 \<le> ?n)"
    by (auto simp: checkRateLimit_def sentLastHour_def)
  have f11: "(fail 11 ''rate_limiting'' ''Rate limit exceeded''
         \<in> set (failed (checks (checkBeforePublish cfg s now p)))) = (\<not> checkRateLimit s now)"
    by (simp add: failed_checkBeforePublish fail_def)
  have p11: "(pass 11 ''rate_limiting'' \<in> set (passed (checks (checkBeforePublish cfg s now p))))
       = checkRateLimit s now"
    by (simp add: passed_checkBeforePublish pass_def)
  have a: "checkApproval ?s' p = checkApproval s p"
    by (rule checkApproval_failing_cong) simp_all
  have t: "checkTestGroup ?s' p = checkTestGroup s p"
    by (rule checkTestGroup_failing_cong) simp_all
  have pf: "filter (\<lambda>c. layer c \<noteq> 11) (passed (checks (checkBeforePublish cfg ?s' now p)))
       = filter (\<lambda>c. layer c \<noteq> 11) (passed (checks (checkBeforePublish cfg s now p)))"
    by (simp add: passed_checkBeforePublish a t pass_def)
  have ff: "filter (\<lambda>c. layer c \<noteq> 11) (failed (checks (checkBeforePublish cfg ?s' now p)))
       = filter (\<lambda>c. layer c \<noteq> 11) (failed (checks (checkBeforePublish cfg s now p)))"
    by (simp add: failed_checkBeforePublish a t fail_def)
  from rl f11 p11 pf ff show ?thesis by (simp only: ) auto
qed

text \<open>
  The theorem at a table of 1600 events, clock 4600000 ms: 999 \<^verbatim>\<open>sent\<close> events of
  two publications inside the hour, 300 events of another type inside the hour, 300
  \<^verbatim>\<open>sent\<close> events older than the hour and one \<^verbatim>\<open>sent\<close> event exactly one hour old.
  The check passes; with one more \<^verbatim>\<open>sent\<close> event inside the hour it fails; with that
  event and the count query rejected it passes.
\<close>

theorem rate_limit_fails_open_witness:
  "length busyHour = 1600
   \<and> checkRateLimit (scenarioC\<lparr>delivery_events := busyHour\<rparr>) 4600000
   \<and> \<not> checkRateLimit (scenarioC\<lparr>delivery_events := busyHour @ [sentEvent 20 1000001]\<rparr>) 4600000
   \<and> checkRateLimit
       (scenarioC\<lparr>delivery_events := busyHour @ [sentEvent 20 1000001], failing := [SentCount]\<rparr>)
       4600000"
proof -
  have c: "length (filter (\<lambda>e. event_type e = ''sent'' \<and> 1000000 < occurred_at e) busyHour) = 999"
    by (simp add: busyHour_def sentEvent_def)
  have c1: "length (filter (\<lambda>e. event_type e = ''sent'' \<and> 1000000 < occurred_at e)
              (busyHour @ [sentEvent 20 1000001])) = 1000"
    by (simp add: c) (simp add: sentEvent_def)
  have l: "length busyHour = 1600" by (simp add: busyHour_def)
  from conjunct1[OF rate_limit_fails_open[of "scenarioC\<lparr>delivery_events := busyHour\<rparr>" 4600000]]
  have 1: "checkRateLimit (scenarioC\<lparr>delivery_events := busyHour\<rparr>) 4600000"
    by (simp add: c scenarioC_fields)
  from conjunct1[OF rate_limit_fails_open[of "scenarioC\<lparr>delivery_events := busyHour @ [sentEvent 20 1000001]\<rparr>" 4600000]]
  have 2: "\<not> checkRateLimit (scenarioC\<lparr>delivery_events := busyHour @ [sentEvent 20 1000001]\<rparr>) 4600000"
    by (simp add: c sentEvent_def scenarioC_fields)
  from conjunct1[OF rate_limit_fails_open[of "scenarioC\<lparr>delivery_events := busyHour @ [sentEvent 20 1000001], failing := [SentCount]\<rparr>" 4600000]]
  have 3: "checkRateLimit
       (scenarioC\<lparr>delivery_events := busyHour @ [sentEvent 20 1000001], failing := [SentCount]\<rparr>)
       4600000"
    by simp
  from l 1 2 3 show ?thesis by blast
qed

section \<open>Recording delivery events\<close>

text \<open>
  C7, evaluated on scenario C with a transport that never throws. Segment 3 resolves to
  three recipients and all three e-mails are sent, but every call of \<^verbatim>\<open>hashEmail\<close>
  ends in the syntax error of its \<^verbatim>\<open>await\<close>: the job fails after the update of the
  publication row, and no delivery event, hashed or not, is recorded.
\<close>

theorem hashEmail_never_returns:
  "getRecipients scenarioC fullRow =
     Inr [\<lparr>id_r = MemberId 31, email = ''ann@example.org''\<rparr>,
          \<lparr>id_r = MemberId 32, email = ''bob@example.org''\<rparr>,
          \<lparr>id_r = MemberId 34, email = ''dee@example.org''\<rparr>]
   \<and> map hashEmail [''ann@example.org'', ''bob@example.org'', ''dee@example.org'']
       = [Inl AwaitSyntaxError, Inl AwaitSyntaxError, Inl AwaitSyntaxError]
   \<and> fst (process noRollbackConfig (\<lambda>k. None) 1000000 fullJob scenarioC) = Inl AwaitSyntaxError
   \<and> delivery_events (snd (process noRollbackConfig (\<lambda>k. None) 1000000 fullJob scenarioC)) = []
   \<and> map (\<lambda>p. (id_pub p, successful_deliveries p, recipients_count p))
        (guidance_publications (snd (process noRollbackConfig (\<lambda>k. None) 1000000 fullJob scenarioC)))
       = [(20, 1, 1), (21, 3, 3)]"
  unfolding process_scenarioC_hashEmail sendGuidance_all_ok3
  by (simp add: scenarioC_recipients hashEmail_def scenarioC_fields priorTest_fields fullRow_fields
        markPublished_fields priorTest_def insertedRow_fields markPublished_def)




section \<open>The rollback route and the invariant: auxiliary facts\<close>

lemma rollback_found:
  "reason \<noteq> [] \<Longrightarrow> PublicationLookup \<notin> set (failing s) \<Longrightarrow> selectPublication i s = Some p \<Longrightarrow>
   rollback now i reason s =
     (if dateOf (grace_period_ends_at p) < now then (GracePeriodExpired (dateOf (grace_period_ends_at p)), s)
      else if PublicationUpdate \<in> set (failing s) then (RollbackFailed, s)
      else (RolledBack i, updatePublication i (markRolledBack now reason) s))"
  by (simp add: rollback_def Let_def)

lemma rollback_missing:
  "reason \<noteq> [] \<Longrightarrow> PublicationLookup \<notin> set (failing s) \<Longrightarrow> selectPublication i s = None \<Longrightarrow>
   rollback now i reason s = (NotFound, s)"
  by (simp add: rollback_def)

lemma rollback_pending:
  "reason \<noteq> [] \<Longrightarrow> PublicationLookup \<notin> set (failing s) \<Longrightarrow> selectPublication i s = Some p \<Longrightarrow>
   grace_period_ends_at p = None \<Longrightarrow> 0 < now \<Longrightarrow>
   rollback now i reason s = (GracePeriodExpired 0, s)"
  by (simp add: rollback_found dateOf_def)

lemma deliveredC_eq:
  "deliveredC = updatePublication 21
     (markPublished noRollbackConfig 1000000 \<lparr>sent = 3, failed_sends = 0, errors = []\<rparr> 3) scenarioC"
  unfolding deliveredC_def process_scenarioC_hashEmail sendGuidance_all_ok3 by simp

lemma deliveredC_fields:
  "guidance_publications deliveredC =
     [priorTest, markPublished noRollbackConfig 1000000 \<lparr>sent = 3, failed_sends = 0, errors = []\<rparr> 3 fullRow]"
  "failing deliveredC = []"
  by (simp_all add: deliveredC_eq scenarioC_fields priorTest_fields fullRow_fields)

lemma deliveredC_select:
  "selectPublication 21 deliveredC =
     Some (markPublished noRollbackConfig 1000000 \<lparr>sent = 3, failed_sends = 0, errors = []\<rparr> 3 fullRow)"
  by (simp add: deliveredC_eq select_update scenarioC_select)

lemma rolledBackC_eq:
  "rolledBackC = updatePublication 21 (markRolledBack 1100000 ''typo in title'') deliveredC"
  unfolding rolledBackC_def
  by (subst rollback_found[OF _ _ deliveredC_select])
     (simp_all add: deliveredC_fields markPublished_fields noRollbackConfig_fields dateOf_def)

lemma rolledBackC_select:
  "selectPublication 21 rolledBackC =
     Some (markRolledBack 1100000 ''typo in title''
       (markPublished noRollbackConfig 1000000 \<lparr>sent = 3, failed_sends = 0, errors = []\<rparr> 3 fullRow))"
  by (simp add: rolledBackC_eq select_update deliveredC_select)

lemma rolledBackC_fields:
  "guidance_publications rolledBackC =
     [priorTest, markRolledBack 1100000 ''typo in title''
       (markPublished noRollbackConfig 1000000 \<lparr>sent = 3, failed_sends = 0, errors = []\<rparr> 3 fullRow)]"
  "failing rolledBackC = []"
  by (simp_all add: rolledBackC_eq deliveredC_fields priorTest_fields fullRow_fields)

lemma markRolledBack_fields:
  "rolled_back_at (markRolledBack now reason p) = Some now"
  "rollback_reason (markRolledBack now reason p) = Some reason"
  "can_rollback (markRolledBack now reason p) = False"
  "grace_period_ends_at (markRolledBack now reason p) = grace_period_ends_at p"
  "published_at (markRolledBack now reason p) = published_at p"
  by (simp_all add: markRolledBack_def)

lemma scenarioA_select: "selectPublication 11 scenarioA = Some (insertedRow 1000000 11 testRequest)"
  by (simp add: selectPublication_def scenarioA_fields insertedRow_fields)

lemma invariant_map:
  "list_all (\<lambda>p. rolled_back_at p = None \<or> \<not> can_rollback p) ps \<Longrightarrow>
   (\<And>p. rolled_back_at p = None \<or> \<not> can_rollback p \<Longrightarrow>
        rolled_back_at (f p) = None \<or> \<not> can_rollback (f p)) \<Longrightarrow>
   list_all (\<lambda>p. rolled_back_at p = None \<or> \<not> can_rollback p)
     (map (\<lambda>p. if id_pub p = i then f p else p) ps)"
  by (induction ps) auto

lemma invariant_update:
  "rollbackInvariant s \<Longrightarrow>
   (\<And>p. rolled_back_at p = None \<or> \<not> can_rollback p \<Longrightarrow>
        rolled_back_at (f p) = None \<or> \<not> can_rollback (f p)) \<Longrightarrow>
   rollbackInvariant (updatePublication i f s)"
  unfolding rollbackInvariant_def by (simp add: invariant_map)

lemma invariant_cong:
  "guidance_publications s' = guidance_publications s \<Longrightarrow> rollbackInvariant s' = rollbackInvariant s"
  by (simp add: rollbackInvariant_def)

lemma schedule_pubs:
  "guidance_publications (snd (schedule now n req s)) = guidance_publications s
   \<or> guidance_publications (snd (schedule now n req s)) = guidance_publications s @ [insertedRow now n req]"
  by (simp add: schedule_def Let_def)

lemma find_append_keep:
  "List.find P xs = Some x \<Longrightarrow> List.find P (xs @ ys) = Some x"
  by (induction xs) (auto split: if_splits)

lemma schedule_select:
  "selectPublication k s = Some p \<Longrightarrow> selectPublication k (snd (schedule now n req s)) = Some p"
  using schedule_pubs[of now n req s]
  by (auto simp: selectPublication_def find_append_keep)

lemma processWith_state:
  "guidance_publications (snd (processWith h cfg tr now j s)) = guidance_publications s
   \<or> (\<exists>r m. guidance_publications (snd (processWith h cfg tr now j s))
         = guidance_publications (updatePublication (publicationId j) (markPublished cfg now r m) s))"
proof (cases "PublicationLookup \<in> set (failing s)")
  case True
  then show ?thesis by (simp add: processWith_def)
next
  case lookup: False
  show ?thesis
  proof (cases "selectPublication (publicationId j) s")
    case None
    with lookup show ?thesis by (simp add: processWith_def)
  next
    case (Some p)
    show ?thesis
    proof (cases "safe (checkBeforePublish cfg s now p)")
      case False
      with lookup Some show ?thesis by (simp add: processWith_unsafe)
    next
      case gate: True
      show ?thesis
      proof (cases "if testMode j then Inr (testRecipients cfg) else getRecipients s p")
        case (Inl e)
        with lookup Some gate show ?thesis by (simp add: processWith_def Let_def)
      next
        case (Inr rs)
        show ?thesis
        proof (cases "PublicationUpdate \<in> set (failing s)")
          case True
          with lookup Some gate Inr show ?thesis by (simp add: processWith_def Let_def)
        next
          case False
          let ?s1 = "updatePublication (publicationId j)
                       (markPublished cfg now (sendGuidance tr rs) (length rs)) s"
          obtain r s2 where l: "logDeliveryEvents h now (publicationId j) (testMode j) rs ?s1 = (r, s2)"
            by (cases "logDeliveryEvents h now (publicationId j) (testMode j) rs ?s1") auto
          have p: "snd (processWith h cfg tr now j s) = s2"
            unfolding processWith_safe[OF lookup Some gate Inr False] l
            by (cases r) simp_all
          from log_fields[OF l] have "guidance_publications s2 = guidance_publications ?s1" by simp
          with p show ?thesis by auto
        qed
      qed
    qed
  qed
qed

lemma rollback_state:
  "snd (rollback now i reason s) = s
   \<or> (fst (rollback now i reason s) = RolledBack i
       \<and> snd (rollback now i reason s) = updatePublication i (markRolledBack now reason) s
       \<and> selectPublication i s \<noteq> None)"
  by (auto simp: rollback_def Let_def split: option.splits)

section \<open>Rollback requests\<close>

text \<open>
  C2 as stated fails on a publication that was already rolled back inside its window:
  row 21 has \<^verbatim>\<open>rolled_back_at\<close> set and the predicate of the specification is false at
  1200000 ms, yet a second request at that instant succeeds and overwrites
  \<^verbatim>\<open>rolled_back_at\<close> and \<^verbatim>\<open>rollback_reason\<close>.
\<close>

theorem rollback_twice_succeeds:
  "map_option id_pub (selectPublication 21 rolledBackC) = Some 21
   \<and> grace_period_ends_at (the (selectPublication 21 rolledBackC)) = Some 1300000
   \<and> rolled_back_at (the (selectPublication 21 rolledBackC)) = Some 1100000
   \<and> rollback_reason (the (selectPublication 21 rolledBackC)) = Some ''typo in title''
   \<and> \<not> canRollback_spec (the (selectPublication 21 rolledBackC)) 1200000
   \<and> fst (rollback 1200000 21 ''again'' rolledBackC) = RolledBack 21
   \<and> rolled_back_at (the (selectPublication 21 (snd (rollback 1200000 21 ''again'' rolledBackC))))
       = Some 1200000
   \<and> rollback_reason (the (selectPublication 21 (snd (rollback 1200000 21 ''again'' rolledBackC))))
       = Some ''again''"
proof -
  have r: "rollback 1200000 21 ''again'' rolledBackC
             = (RolledBack 21, updatePublication 21 (markRolledBack 1200000 ''again'') rolledBackC)"
    by (subst rollback_found[OF _ _ rolledBackC_select])
       (simp_all add: rolledBackC_fields markRolledBack_fields markPublished_fields
          noRollbackConfig_fields dateOf_def)
  show ?thesis
    unfolding r
    by (simp add: select_update rolledBackC_select markRolledBack_fields markPublished_fields
          fullRow_fields noRollbackConfig_fields canRollback_spec_def)
qed

text \<open>
  C2, amended. For a rollback request with a non-empty reason, while the store accepts
  the lookup and the update: if the publication does not exist the answer is not-found;
  if the clock is after \<^verbatim>\<open>grace_period_ends_at\<close> the answer is grace-period-expired
  with that instant; a publication without a window is not rolled back; in these cases
  the state is unchanged. If the clock is before \<^verbatim>\<open>grace_period_ends_at\<close> the request
  succeeds, whatever \<^verbatim>\<open>rolled_back_at\<close> holds, and sets \<^verbatim>\<open>rolled_back_at\<close> to the
  clock, \<^verbatim>\<open>rollback_reason\<close> to the reason and \<^verbatim>\<open>can_rollback\<close> to false on that
  row. No other row is changed. The route has no already-rolled-back answer.
\<close>

theorem rollback_outcomes:
  assumes "reason \<noteq> []" "PublicationLookup \<notin> set (failing s)" "PublicationUpdate \<notin> set (failing s)"
  shows "(selectPublication i s = None \<longrightarrow> rollback now i reason s = (NotFound, s))
   \<and> (\<forall>p t. selectPublication i s = Some p \<and> grace_period_ends_at p = Some t \<and> t < now \<longrightarrow>
         rollback now i reason s = (GracePeriodExpired t, s))
   \<and> (\<forall>p. selectPublication i s = Some p \<and> grace_period_ends_at p = None \<and> 0 < now \<longrightarrow>
         fst (rollback now i reason s) \<noteq> RolledBack i \<and> snd (rollback now i reason s) = s)
   \<and> (\<forall>p t. selectPublication i s = Some p \<and> grace_period_ends_at p = Some t \<and> now < t \<longrightarrow>
         fst (rollback now i reason s) = RolledBack i
         \<and> selectPublication i (snd (rollback now i reason s))
             = Some (p\<lparr>rolled_back_at := Some now, rollback_reason := Some reason,
                       can_rollback := False\<rparr>))
   \<and> (\<forall>k. k \<noteq> i \<longrightarrow> selectPublication k (snd (rollback now i reason s)) = selectPublication k s)"
proof -
  have missing: "rollback now i reason s = (NotFound, s)" if "selectPublication i s = None"
    using assms that by (simp add: rollback_missing)
  have expired: "rollback now i reason s = (GracePeriodExpired t, s)"
    if "selectPublication i s = Some p" "grace_period_ends_at p = Some t" "t < now" for p t
    using assms that by (simp add: rollback_found dateOf_def)
  have pending: "fst (rollback now i reason s) \<noteq> RolledBack i \<and> snd (rollback now i reason s) = s"
    if "selectPublication i s = Some p" "grace_period_ends_at p = None" "0 < now" for p
    using assms that by (simp add: rollback_pending)
  have inside: "fst (rollback now i reason s) = RolledBack i
         \<and> selectPublication i (snd (rollback now i reason s))
             = Some (p\<lparr>rolled_back_at := Some now, rollback_reason := Some reason,
                       can_rollback := False\<rparr>)"
    if "selectPublication i s = Some p" "grace_period_ends_at p = Some t" "now < t" for p t
    using assms that by (simp add: rollback_found dateOf_def select_update markRolledBack_def)
  have others: "selectPublication k (snd (rollback now i reason s)) = selectPublication k s"
    if "k \<noteq> i" for k
  proof (cases "selectPublication i s")
    case None
    then show ?thesis by (simp add: missing)
  next
    case (Some p)
    with assms that show ?thesis by (simp add: rollback_found select_update)
  qed
  from missing expired pending inside others show ?thesis by blast
qed

text \<open>
  The amended statement at concrete requests: an unknown identifier; a window that ended
  at 1300000 ms, asked one millisecond after and one millisecond before its end; and the
  repeated request on the row that is already rolled back.
\<close>

theorem rollback_outcomes_witness:
  "rollback 1200000 99 ''again'' rolledBackC = (NotFound, rolledBackC)
   \<and> rollback 1300001 21 ''too late'' deliveredC = (GracePeriodExpired 1300000, deliveredC)
   \<and> fst (rollback 1299999 21 ''last call'' deliveredC) = RolledBack 21
   \<and> map_option rolled_back_at (selectPublication 21 rolledBackC) = Some (Some 1100000)
   \<and> fst (rollback 1200000 21 ''again'' rolledBackC) = RolledBack 21
   \<and> map_option rolled_back_at (selectPublication 21 (snd (rollback 1200000 21 ''again'' rolledBackC)))
       = Some (Some 1200000)"
proof -
  have r: "''again'' \<noteq> []" "''too late'' \<noteq> []" "''last call'' \<noteq> []" by simp_all
  have ok: "PublicationLookup \<notin> set (failing rolledBackC)" "PublicationUpdate \<notin> set (failing rolledBackC)"
    "PublicationLookup \<notin> set (failing deliveredC)" "PublicationUpdate \<notin> set (failing deliveredC)"
    by (simp_all add: rolledBackC_fields deliveredC_fields)
  have none: "selectPublication 99 rolledBackC = None"
    by (simp add: selectPublication_def rolledBackC_fields priorTest_fields fullRow_fields)
  have g1: "grace_period_ends_at (markPublished noRollbackConfig 1000000
              \<lparr>sent = 3, failed_sends = 0, errors = []\<rparr> 3 fullRow) = Some 1300000"
    by (simp add: markPublished_fields noRollbackConfig_fields)
  have g2: "grace_period_ends_at (markRolledBack 1100000 ''typo in title''
       (markPublished noRollbackConfig 1000000 \<lparr>sent = 3, failed_sends = 0, errors = []\<rparr> 3 fullRow))
       = Some 1300000"
    by (simp add: markRolledBack_fields g1)
  note a = rollback_outcomes[OF r(1) ok(1,2), of 99 1200000]
  note b = rollback_outcomes[OF r(2) ok(3,4), of 21 1300001]
  note c = rollback_outcomes[OF r(3) ok(3,4), of 21 1299999]
  note d = rollback_outcomes[OF r(1) ok(1,2), of 21 1200000]
  have 1: "rollback 1200000 99 ''again'' rolledBackC = (NotFound, rolledBackC)"
    using a none by blast
  have 2: "rollback 1300001 21 ''too late'' deliveredC = (GracePeriodExpired 1300000, deliveredC)"
    using b deliveredC_select g1 by simp
  have 3: "fst (rollback 1299999 21 ''last call'' deliveredC) = RolledBack 21"
    using c deliveredC_select g1 by simp
  have 4: "fst (rollback 1200000 21 ''again'' rolledBackC) = RolledBack 21
     \<and> selectPublication 21 (snd (rollback 1200000 21 ''again'' rolledBackC))
         = Some ((markRolledBack 1100000 ''typo in title''
       (markPublished noRollbackConfig 1000000 \<lparr>sent = 3, failed_sends = 0, errors = []\<rparr> 3 fullRow))
         \<lparr>rolled_back_at := Some 1200000, rollback_reason := Some ''again'', can_rollback := False\<rparr>)"
    using d rolledBackC_select g2 by simp
  from 1 2 3 4 show ?thesis
    by (simp add: rolledBackC_select markRolledBack_fields)
qed

text \<open>
  C6, evaluated on two pending publications. In scenario A the row and its queued job
  come from the schedule route; a rollback requested at 1200000 ms, before the scheduled
  instant 1600000 ms, is answered with grace-period-expired for the epoch, and neither
  the row nor the queue changes. In scenario C the same answer comes at 900000 ms; the
  job that runs afterwards at 1000000 ms passes the gate and sends to all three
  recipients of the segment.
\<close>

theorem rollback_before_delivery_rejected:
  "map (\<lambda>p. (id_pub p, scheduled_for p, published_at p, grace_period_ends_at p))
       (guidance_publications scenarioA) = [(11, Some 1600000, None, None)]
   \<and> publishQueue scenarioA = [queuedJob 1000000 11 testRequest]
   \<and> rollback 1200000 11 ''wrong draft'' scenarioA = (GracePeriodExpired 0, scenarioA)
   \<and> map (\<lambda>p. (id_pub p, scheduled_for p, published_at p, grace_period_ends_at p))
       (guidance_publications scenarioC)
       = [(20, Some 1600000, Some 600000, Some 900000), (21, Some 1600000, None, None)]
   \<and> rollback 900000 21 ''wrong draft'' scenarioC = (GracePeriodExpired 0, scenarioC)
   \<and> map (\<lambda>p. (id_pub p, published_at p, successful_deliveries p, rolled_back_at p))
        (guidance_publications
          (snd (process noRollbackConfig (\<lambda>k. None) 1000000 fullJob
                 (snd (rollback 900000 21 ''wrong draft'' scenarioC)))))
       = [(20, Some 600000, 1, None), (21, Some 1000000, 3, None)]"
proof -
  have a: "rollback 1200000 11 ''wrong draft'' scenarioA = (GracePeriodExpired 0, scenarioA)"
    by (rule rollback_pending[OF _ _ scenarioA_select])
       (simp_all add: scenarioA_fields insertedRow_fields)
  have c: "rollback 900000 21 ''wrong draft'' scenarioC = (GracePeriodExpired 0, scenarioC)"
    by (rule rollback_pending[OF _ _ scenarioC_select])
       (simp_all add: scenarioC_fields fullRow_fields)
  have d: "snd (process noRollbackConfig (\<lambda>k. None) 1000000 fullJob scenarioC) = deliveredC"
    by (simp add: deliveredC_def)
  show ?thesis
    unfolding a c snd_conv d
    by (simp add: scenarioA_fields scenarioC_fields deliveredC_fields insertedRow_fields
          request_fields priorTest_fields fullRow_fields markPublished_fields
          priorTest_def markPublished_def defaultConfig_fields)
qed

lemma select_in_table:
  "selectPublication i s = Some p \<Longrightarrow> p \<in> set (guidance_publications s)"
  by (auto simp: selectPublication_def find_Some_iff)

lemma status_reads_row:
  "getPublication i s = Status v \<Longrightarrow>
   \<exists>p. selectPublication i s = Some p \<and> st_rolled_back_at v = rolled_back_at p
       \<and> st_can_rollback v = can_rollback p"
  by (auto simp: getPublication_def split: if_splits option.splits)

section \<open>Rolled back means no longer rollbackable\<close>

text \<open>
  C9. If every row satisfies \<^verbatim>\<open>rolled_back_at\<close> set implies \<^verbatim>\<open>can_rollback\<close> false,
  then so does every row after the schedule route, after the delivery job (whatever the
  hashing call returns) and after the rollback route. A successful rollback leaves the
  row with \<^verbatim>\<open>rolled_back_at\<close> equal to the clock and \<^verbatim>\<open>can_rollback\<close> false, both
  set by the one update. A row whose \<^verbatim>\<open>can_rollback\<close> is false keeps it false through
  each of the three operations. The status route changes no row (it is a function of the
  state that returns a response only), and the flags it reports satisfy the same
  implication.
\<close>

theorem rolled_back_never_rollbackable:
  assumes inv: "rollbackInvariant s"
  shows "rollbackInvariant (snd (schedule now n req s))
   \<and> rollbackInvariant (snd (processWith hash cfg transport now j s))
   \<and> rollbackInvariant (snd (rollback now i reason s))
   \<and> (fst (rollback now i reason s) = RolledBack i \<longrightarrow>
        (\<exists>p. selectPublication i (snd (rollback now i reason s)) = Some p
           \<and> rolled_back_at p = Some now \<and> \<not> can_rollback p))
   \<and> (\<forall>k. map_option can_rollback (selectPublication k s) = Some False \<longrightarrow>
          map_option can_rollback (selectPublication k (snd (schedule now n req s))) = Some False
        \<and> map_option can_rollback
            (selectPublication k (snd (processWith hash cfg transport now j s))) = Some False
        \<and> map_option can_rollback (selectPublication k (snd (rollback now i reason s))) = Some False)
   \<and> (\<forall>v. getPublication i s = Status v \<longrightarrow>
          st_rolled_back_at v = None \<or> \<not> st_can_rollback v)"
proof -
  have stat: "st_rolled_back_at v = None \<or> \<not> st_can_rollback v"
    if "getPublication i s = Status v" for v
  proof -
    from status_reads_row[OF that] obtain p where
      p: "selectPublication i s = Some p" "st_rolled_back_at v = rolled_back_at p"
         "st_can_rollback v = can_rollback p" by blast
    from select_in_table[OF p(1)] inv have "rolled_back_at p = None \<or> \<not> can_rollback p"
      by (auto simp: rollbackInvariant_def list_all_iff)
    with p show ?thesis by simp
  qed
  have sched: "rollbackInvariant (snd (schedule now n req s))"
    using schedule_pubs[of now n req s] inv
    by (auto simp: rollbackInvariant_def insertedRow_fields)
  have job: "rollbackInvariant (snd (processWith hash cfg transport now j s))"
  proof -
    from processWith_state[of hash cfg transport now j s]
    consider (same) "guidance_publications (snd (processWith hash cfg transport now j s))
                       = guidance_publications s"
      | (upd) r m where "guidance_publications (snd (processWith hash cfg transport now j s))
         = guidance_publications (updatePublication (publicationId j) (markPublished cfg now r m) s)"
      by blast
    then show ?thesis
    proof cases
      case same
      from invariant_cong[OF same] inv show ?thesis by simp
    next
      case upd
      have "rollbackInvariant (updatePublication (publicationId j) (markPublished cfg now r m) s)"
        by (rule invariant_update[OF inv]) (simp add: markPublished_fields)
      with invariant_cong[OF upd] show ?thesis by simp
    qed
  qed
  have rb: "rollbackInvariant (snd (rollback now i reason s))"
  proof -
    from rollback_state[of now i reason s]
    consider (same) "snd (rollback now i reason s) = s"
      | (upd) "snd (rollback now i reason s) = updatePublication i (markRolledBack now reason) s"
      by blast
    then show ?thesis
    proof cases
      case same
      with inv show ?thesis by simp
    next
      case upd
      have "rollbackInvariant (updatePublication i (markRolledBack now reason) s)"
        by (rule invariant_update[OF inv]) (simp add: markRolledBack_fields)
      with upd show ?thesis by simp
    qed
  qed
  have same: "\<exists>p. selectPublication i (snd (rollback now i reason s)) = Some p
           \<and> rolled_back_at p = Some now \<and> \<not> can_rollback p"
    if ok: "fst (rollback now i reason s) = RolledBack i"
  proof -
    from ok have "snd (rollback now i reason s) = updatePublication i (markRolledBack now reason) s
        \<and> selectPublication i s \<noteq> None"
      by (auto simp: rollback_def Let_def split: option.splits if_splits)
    then show ?thesis by (auto simp: select_update markRolledBack_fields)
  qed
  have mono: "map_option can_rollback (selectPublication k (snd (schedule now n req s))) = Some False
        \<and> map_option can_rollback
            (selectPublication k (snd (processWith hash cfg transport now j s))) = Some False
        \<and> map_option can_rollback (selectPublication k (snd (rollback now i reason s))) = Some False"
    if k: "map_option can_rollback (selectPublication k s) = Some False" for k
  proof -
    from k obtain p where p: "selectPublication k s = Some p" "\<not> can_rollback p" by auto
    have 1: "map_option can_rollback (selectPublication k (snd (schedule now n req s))) = Some False"
      using schedule_select[OF p(1), of now n req] p(2) by simp
    have 2: "map_option can_rollback
            (selectPublication k (snd (processWith hash cfg transport now j s))) = Some False"
    proof -
      from processWith_state[of hash cfg transport now j s]
      consider (same) "guidance_publications (snd (processWith hash cfg transport now j s))
                         = guidance_publications s"
        | (upd) r m where "guidance_publications (snd (processWith hash cfg transport now j s))
           = guidance_publications (updatePublication (publicationId j) (markPublished cfg now r m) s)"
        by blast
      then show ?thesis
      proof cases
        case same
        from select_cong[OF same, of k] p show ?thesis by simp
      next
        case upd
        from select_cong[OF upd, of k] p show ?thesis
          by (auto simp: select_update markPublished_fields)
      qed
    qed
    have 3: "map_option can_rollback (selectPublication k (snd (rollback now i reason s))) = Some False"
      using rollback_state[of now i reason s] p
      by (auto simp: select_update markRolledBack_fields)
    from 1 2 3 show ?thesis by blast
  qed
  from sched job rb same mono stat show ?thesis by blast
qed

text \<open>
  The theorem at scenario C after delivery: the invariant holds there, the rollback at
  1100000 ms succeeds and keeps it, and scheduling or running a job afterwards keeps both
  the invariant and the cleared flag of row 21.
\<close>

theorem rolled_back_never_rollbackable_witness:
  "rollbackInvariant deliveredC
   \<and> rollbackInvariant (snd (rollback 1100000 21 ''typo in title'' deliveredC))
   \<and> fst (rollback 1100000 21 ''typo in title'' deliveredC) = RolledBack 21
   \<and> (\<exists>p. selectPublication 21 (snd (rollback 1100000 21 ''typo in title'' deliveredC)) = Some p
         \<and> rolled_back_at p = Some 1100000 \<and> \<not> can_rollback p)
   \<and> rollbackInvariant (snd (schedule 1150000 23 fullRequest rolledBackC))
   \<and> rollbackInvariant (snd (processWith hashEmail noRollbackConfig (\<lambda>k. None) 1150000 fullJob rolledBackC))
   \<and> map_option can_rollback (selectPublication 21 rolledBackC) = Some False
   \<and> map_option can_rollback
       (selectPublication 21 (snd (processWith hashEmail noRollbackConfig (\<lambda>k. None) 1150000 fullJob rolledBackC)))
       = Some False"
proof -
  have i1: "rollbackInvariant deliveredC"
    by (simp add: rollbackInvariant_def deliveredC_fields priorTest_fields markPublished_fields
          fullRow_fields)
  have f: "fst (rollback 1100000 21 ''typo in title'' deliveredC) = RolledBack 21"
    by (subst rollback_found[OF _ _ deliveredC_select])
       (simp_all add: deliveredC_fields markPublished_fields noRollbackConfig_fields dateOf_def)
  have i2: "rollbackInvariant rolledBackC"
    using rolled_back_never_rollbackable[OF i1, where now = 1100000 and i = 21 and reason = "''typo in title''"]
    by (simp add: rolledBackC_def)
  have c: "map_option can_rollback (selectPublication 21 rolledBackC) = Some False"
    by (simp add: rolledBackC_select markRolledBack_fields)
  from rolled_back_never_rollbackable[OF i1, where now = 1100000 and i = 21 and reason = "''typo in title''"] f i1
  have a: "rollbackInvariant (snd (rollback 1100000 21 ''typo in title'' deliveredC))
     \<and> (\<exists>p. selectPublication 21 (snd (rollback 1100000 21 ''typo in title'' deliveredC)) = Some p
         \<and> rolled_back_at p = Some 1100000 \<and> \<not> can_rollback p)"
    by blast
  from rolled_back_never_rollbackable[OF i2, where now = 1150000 and n = 23 and req = fullRequest
      and hash = hashEmail and cfg = noRollbackConfig and transport = "\<lambda>k. None" and j = fullJob] c
  have b: "rollbackInvariant (snd (schedule 1150000 23 fullRequest rolledBackC))
   \<and> rollbackInvariant (snd (processWith hashEmail noRollbackConfig (\<lambda>k. None) 1150000 fullJob rolledBackC))
   \<and> map_option can_rollback
       (selectPublication 21 (snd (processWith hashEmail noRollbackConfig (\<lambda>k. None) 1150000 fullJob rolledBackC)))
       = Some False"
    by blast
  from i1 f a b c show ?thesis by blast
qed

section \<open>When the grace window opens\<close>













end
